theory Spec2Isabelle
  imports Complex_Main "HOL-Library.Word" "HOL-Library.Sublist"
begin

section \<open>JavaScript values used by the component\<close>

subsection \<open>Strings\<close>

text \<open>
  A JavaScript string is a sequence of UTF-16 code units: \<open>length\<close>, \<open>substring\<close>,
  \<open>startsWith\<close>, \<open>split\<close> and \<open>includes\<close> all count and compare code units.
  The literals of the source are ASCII; \<open>str\<close> embeds them.
\<close>

type_synonym jschar = "16 word"
type_synonym jsstring = "jschar list"

definition str :: "string \<Rightarrow> jsstring" where
  "str s = map (\<lambda>c. of_nat (of_char c)) s"

text \<open>
  \<open>String.prototype.trim\<close> removes WhiteSpace and LineTerminator code units from both
  ends: TAB, LF, VT, FF, CR, SP, NBSP, U+1680, U+2000..U+200A, U+2028, U+2029, U+202F,
  U+205F, U+3000 and U+FEFF.
\<close>

definition is_whitespace :: "jschar \<Rightarrow> bool" where
  "is_whitespace c \<longleftrightarrow>
     (let n = unat c in
        (9 \<le> n \<and> n \<le> 13) \<or> n = 32 \<or> n = 160 \<or> n = 5760 \<or> (8192 \<le> n \<and> n \<le> 8202) \<or>
        n = 8232 \<or> n = 8233 \<or> n = 8239 \<or> n = 8287 \<or> n = 12288 \<or> n = 65279)"

definition trim :: "jsstring \<Rightarrow> jsstring" where
  "trim s = rev (dropWhile is_whitespace (rev (dropWhile is_whitespace s)))"

text \<open>\<open>s.split(sep)\<close> for a one-unit separator; the result is never empty (\<open>"".split(";")\<close> is \<open>[""]\<close>).\<close>

fun split :: "jschar \<Rightarrow> jsstring \<Rightarrow> jsstring list" where
  "split sep [] = [[]]"
| "split sep (c # cs) =
     (if c = sep then [] # split sep cs
      else (case split sep cs of
              [] \<Rightarrow> [[c]]
            | p # ps \<Rightarrow> (c # p) # ps))"

definition startsWith :: "jsstring \<Rightarrow> jsstring \<Rightarrow> bool" where
  "startsWith s p \<longleftrightarrow> take (length p) s = p"

text \<open>\<open>s.substring(n)\<close> and \<open>s.substring(0, n)\<close>; an index beyond the end is clamped.\<close>

definition substring_from :: "jsstring \<Rightarrow> nat \<Rightarrow> jsstring" where
  "substring_from s n = drop n s"

definition substring_to :: "jsstring \<Rightarrow> nat \<Rightarrow> jsstring" where
  "substring_to s n = take n s"

text \<open>\<open>hay.includes(needle)\<close>: \<open>needle\<close> occurs in \<open>hay\<close> as a contiguous run.\<close>

fun includes_str :: "jsstring \<Rightarrow> jsstring \<Rightarrow> bool" where
  "includes_str [] needle \<longleftrightarrow> needle = []"
| "includes_str (h # hs) needle \<longleftrightarrow> startsWith (h # hs) needle \<or> includes_str hs needle"

text \<open>Truthiness of a string, and of a string that may be \<open>null\<close> or \<open>undefined\<close>.\<close>

definition truthy_str :: "jsstring option \<Rightarrow> bool" where
  "truthy_str v \<longleftrightarrow> (case v of None \<Rightarrow> False | Some s \<Rightarrow> s \<noteq> [])"

subsection \<open>Cookies\<close>

text \<open>
  \<open>getCookieByName\<close> reads \<open>document.cookie\<close>, here the argument \<open>cookie_doc\<close>:
  the first piece between semicolons that, trimmed, starts with \<open>name=\<close> gives the value.
\<close>

fun getCookieByName_loop :: "jsstring \<Rightarrow> jsstring list \<Rightarrow> jsstring option" where
  "getCookieByName_loop name [] = None"
| "getCookieByName_loop name (cookie # cookies) =
     (let cookie' = trim cookie in
        if startsWith cookie' (name @ str ''='')
        then Some (substring_from cookie' (length name + 1))
        else getCookieByName_loop name cookies)"

definition getCookieByName :: "jsstring \<Rightarrow> jsstring \<Rightarrow> jsstring option" where
  "getCookieByName cookie_doc name = getCookieByName_loop name (split (str '';'' ! 0) cookie_doc)"

subsection \<open>Errors and dynamically typed values\<close>

text \<open>
  A thrown \<open>Error\<close> object with its \<open>name\<close> and \<open>message\<close>; \<open>`${e}`\<close> converts it
  with \<open>Error.prototype.toString\<close>.
\<close>

datatype js_error = JsError (err_name: jsstring) (err_message: jsstring)

definition error_toString :: "js_error \<Rightarrow> jsstring" where
  "error_toString e =
     (if err_name e = [] then err_message e
      else if err_message e = [] then err_name e
      else err_name e @ str '': '' @ err_message e)"

definition TypeError :: js_error where
  "TypeError = JsError (str ''TypeError'') (str ''Cannot read properties of undefined'')"

text \<open>
  The values that \<open>JSON.parse\<close> and the HTTP client hand to the component. A number
  is observed only through its truthiness (zero is falsy); an object is the table of its
  own properties.
\<close>

datatype json =
    JUndefined
  | JNull
  | JBool bool
  | JNum rat
  | JStr jsstring
  | JArr "json list"
  | JObj "(jsstring \<times> json) list"

fun truthy :: "json \<Rightarrow> bool" where
  "truthy JUndefined = False"
| "truthy JNull = False"
| "truthy (JBool b) = b"
| "truthy (JNum n) = (n \<noteq> 0)"
| "truthy (JStr s) = (s \<noteq> [])"
| "truthy (JArr xs) = True"
| "truthy (JObj kvs) = True"

text \<open>
  \<open>v.k\<close> throws a TypeError on \<open>undefined\<close> and \<open>null\<close>. The property names read by
  the component (\<open>data\<close>, \<open>id\<close>, \<open>attributes\<close>, \<open>localizedMetadata\<close>, \<open>name\<close>,
  \<open>relationships\<close>, \<open>enrollment\<close>) are not properties of arrays, strings, numbers or
  booleans, where the read gives \<open>undefined\<close>.
\<close>

fun get_field :: "json \<Rightarrow> jsstring \<Rightarrow> js_error + json" where
  "get_field JUndefined k = Inl TypeError"
| "get_field JNull k = Inl TypeError"
| "get_field (JObj kvs) k = Inr (case map_of kvs k of None \<Rightarrow> JUndefined | Some v \<Rightarrow> v)"
| "get_field v k = Inr JUndefined"

text \<open>\<open>v[0]\<close>: the first element of an array, the first code unit of a string, the property \<open>"0"\<close> of an object.\<close>

fun get_first :: "json \<Rightarrow> js_error + json" where
  "get_first JUndefined = Inl TypeError"
| "get_first JNull = Inl TypeError"
| "get_first (JArr xs) = Inr (case xs of [] \<Rightarrow> JUndefined | x # _ \<Rightarrow> x)"
| "get_first (JStr s) = Inr (case s of [] \<Rightarrow> JUndefined | c # _ \<Rightarrow> JStr [c])"
| "get_first (JObj kvs) = Inr (case map_of kvs (str ''0'') of None \<Rightarrow> JUndefined | Some v \<Rightarrow> v)"
| "get_first v = Inr JUndefined"

datatype accessor = Field jsstring | First

fun get_path :: "json \<Rightarrow> accessor list \<Rightarrow> js_error + json" where
  "get_path v [] = Inr v"
| "get_path v (Field k # as) =
     (case get_field v k of Inl e \<Rightarrow> Inl e | Inr w \<Rightarrow> get_path w as)"
| "get_path v (First # as) =
     (case get_first v of Inl e \<Rightarrow> Inl e | Inr w \<Rightarrow> get_path w as)"

text \<open>Optional chaining \<open>v?.k\<close>: \<open>undefined\<close> instead of the TypeError.\<close>

definition opt_field :: "json \<Rightarrow> jsstring \<Rightarrow> json" where
  "opt_field v k = (case get_field v k of Inl e \<Rightarrow> JUndefined | Inr w \<Rightarrow> w)"

text \<open>
  \<open>`${v}`\<close>, the string conversion of a template literal. It can throw: an object is
  converted by its \<open>toString\<close>, and an own property \<open>toString\<close>, which in a value that
  came from JSON is never a function, leaves no method that yields a primitive, hence a
  TypeError; without it \<open>Object.prototype.toString\<close> gives \<open>[object Object]\<close>. An array
  is the join by commas of its elements' conversions, \<open>undefined\<close> and \<open>null\<close> giving the
  empty string, and throws where an element throws. The digits of a number are left to the
  parameter \<open>num\<close>.
\<close>

definition ConversionError :: js_error where
  "ConversionError = JsError (str ''TypeError'') (str ''Cannot convert object to primitive value'')"

fun join_strings :: "jsstring list \<Rightarrow> jsstring" where
  "join_strings [] = []"
| "join_strings [x] = x"
| "join_strings (x # y # ys) = x @ str '','' @ join_strings (y # ys)"

fun sequence_results :: "(js_error + 'a) list \<Rightarrow> js_error + 'a list" where
  "sequence_results [] = Inr []"
| "sequence_results (r # rs) =
     (case r of
        Inl e \<Rightarrow> Inl e
      | Inr x \<Rightarrow> (case sequence_results rs of Inl e \<Rightarrow> Inl e | Inr xs \<Rightarrow> Inr (x # xs)))"

fun ToString :: "(rat \<Rightarrow> jsstring) \<Rightarrow> json \<Rightarrow> js_error + jsstring" where
  "ToString num (JStr s) = Inr s"
| "ToString num JUndefined = Inr (str ''undefined'')"
| "ToString num JNull = Inr (str ''null'')"
| "ToString num (JBool b) = Inr (if b then str ''true'' else str ''false'')"
| "ToString num (JNum n) = Inr (num n)"
| "ToString num (JArr xs) =
     (case sequence_results
             (map (\<lambda>x. if x = JUndefined \<or> x = JNull then Inr [] else ToString num x) xs) of
        Inl e \<Rightarrow> Inl e
      | Inr parts \<Rightarrow> Inr (join_strings parts))"
| "ToString num (JObj kvs) =
     (if map_of kvs (str ''toString'') = None then Inr (str ''[object Object]'')
      else Inl ConversionError)"

section \<open>Data model\<close>

text \<open>
  \<open>PrimeLearningObject\<close>, \<open>PrimeLocalizationMetadata\<close> and \<open>PrimeLearningObjectInstance\<close>,
  with the fields the component reads. A field that may be \<open>undefined\<close> at run time is
  an option.
\<close>

record PrimeLocalizationMetadata =
  md_name :: "jsstring option"
  md_description :: "jsstring option"

record PrimeLearningObjectInstance =
  inst_id :: jsstring

record PrimeLearningObject =
  lo_id :: jsstring
  localizedMetadata :: "PrimeLocalizationMetadata list option"
  imageUrl :: "jsstring option"
  instances :: "PrimeLearningObjectInstance list option"

record JsonApiResponse =
  learningObjectList :: "PrimeLearningObject list option"

datatype AlertType = AlertType_error | AlertType_success

text \<open>The component's \<open>useState\<close> cells.\<close>

record component_state =
  userId :: json
  learningObjects :: "PrimeLearningObject list"
  isLoading :: bool
  error :: "jsstring option"
  apiCallInProgress :: bool
  searchTerm :: jsstring

definition initial_state :: component_state where
  "initial_state =
     \<lparr>userId = JNull, learningObjects = [], isLoading = True, error = None,
      apiCallInProgress = False, searchTerm = []\<rparr>"

text \<open>
  What the code does to the world, in program order: the state setters, the two kinds of
  outbound request, the alert, \<open>event.preventDefault()\<close> and \<open>console.error\<close>.
\<close>

datatype effect =
    SetUserId json
  | SetLearningObjects "PrimeLearningObject list"
  | SetIsLoading bool
  | SetError jsstring
  | SetApiCallInProgress bool
  | SetSearchTerm jsstring
  | RestAdapterGet jsstring "(jsstring \<times> json) list"
  | AxiosGet jsstring "(jsstring \<times> jsstring) list"
  | AlmAlert bool jsstring AlertType bool
  | PreventDefault
  | ConsoleError jsstring js_error

fun apply_effect :: "component_state \<Rightarrow> effect \<Rightarrow> component_state" where
  "apply_effect s (SetUserId v) = s\<lparr>userId := v\<rparr>"
| "apply_effect s (SetLearningObjects los) = s\<lparr>learningObjects := los\<rparr>"
| "apply_effect s (SetIsLoading b) = s\<lparr>isLoading := b\<rparr>"
| "apply_effect s (SetError m) = s\<lparr>error := Some m\<rparr>"
| "apply_effect s (SetApiCallInProgress b) = s\<lparr>apiCallInProgress := b\<rparr>"
| "apply_effect s (SetSearchTerm t) = s\<lparr>searchTerm := t\<rparr>"
| "apply_effect s e = s"

definition apply_effects :: "component_state \<Rightarrow> effect list \<Rightarrow> component_state" where
  "apply_effects s es = foldl apply_effect s es"

fun is_RestAdapterGet :: "effect \<Rightarrow> bool" where
  "is_RestAdapterGet (RestAdapterGet u ps) = True"
| "is_RestAdapterGet e = False"

fun is_AxiosGet :: "effect \<Rightarrow> bool" where
  "is_AxiosGet (AxiosGet u hs) = True"
| "is_AxiosGet e = False"

fun is_AlmAlert :: "effect \<Rightarrow> bool" where
  "is_AlmAlert (AlmAlert a m t b) = True"
| "is_AlmAlert e = False"

text \<open>
  How a block of statements ends, and \<open>try { body } catch (e) { handler } finally { fin }\<close>
  for a \<open>finally\<close> block that only calls setters: the \<open>finally\<close> effects come last on
  every path, and an exception of the body is replaced by the handler's completion.
\<close>

datatype completion = Normal | Return | Throw js_error

definition try_catch_finally ::
  "effect list \<times> completion \<Rightarrow> (js_error \<Rightarrow> effect list \<times> completion) \<Rightarrow> effect list
     \<Rightarrow> effect list \<times> completion" where
  "try_catch_finally body handler fin =
     (case body of
        (es, Throw e) \<Rightarrow> (case handler e of (hs, c) \<Rightarrow> (es @ hs @ fin, c))
      | (es, c) \<Rightarrow> (es @ fin, c))"

text \<open>
  The collaborators that are not part of the component: \<open>document.cookie\<close>,
  \<open>JSON.parse\<close>, \<open>getALMConfig().primeApiURL\<close>, \<open>RestAdapter.get\<close> (the outcome of
  the awaited request), \<open>JsonApiParse\<close>, \<open>encodeURIComponent\<close>,
  \<open>String.prototype.toLowerCase\<close> and the string conversion of numbers.
\<close>

record environment =
  document_cookie :: jsstring
  JSON_parse :: "jsstring \<Rightarrow> js_error + json"
  primeApiURL :: jsstring
  RestAdapter_get :: "jsstring \<Rightarrow> (jsstring \<times> json) list \<Rightarrow> js_error + jsstring"
  JsonApiParse :: "jsstring \<Rightarrow> js_error + JsonApiResponse"
  encodeURIComponent :: "jsstring \<Rightarrow> js_error + jsstring"
  toLowerCase :: "jsstring \<Rightarrow> jsstring"
  Number_toString :: "rat \<Rightarrow> jsstring"

section \<open>Loading the catalog on mount\<close>

definition getEnrolledLearningObjects ::
  "environment \<Rightarrow> json \<Rightarrow> effect list \<times> JsonApiResponse option" where
  "getEnrolledLearningObjects env ident =
     (let baseApiUrl = primeApiURL env;
          params = [(str ''userId'', ident),
                    (str ''filter.loTypes'', JStr (str ''course'')),
                    (str ''page[limit]'', JStr (str ''100'')),
                    (str ''sort'', JStr (str ''name'')),
                    (str ''filter.ignoreEnhancedLP'', JStr (str ''true''))];
          url = baseApiUrl @ str ''/learningObjects?'';
          failed = (\<lambda>e. ([RestAdapterGet url params,
                          SetError (str ''Error loading learning objects: '' @ error_toString e),
                          ConsoleError (str ''Error while loading learning objects:'') e], None))
      in case RestAdapter_get env url params of
           Inl e \<Rightarrow> failed e
         | Inr response \<Rightarrow>
             (case JsonApiParse env response of
                Inl e \<Rightarrow> failed e
              | Inr parsed \<Rightarrow> ([RestAdapterGet url params], Some parsed)))"

text \<open>The \<open>try\<close> block of \<open>fetchData\<close>.\<close>

definition fetchData_try :: "environment \<Rightarrow> effect list \<times> completion" where
  "fetchData_try env =
     (let cookieValue = getCookieByName (document_cookie env) (str ''user'');
          not_found = ([SetError (str ''User data not found''), SetIsLoading False], Return)
      in case cookieValue of
           None \<Rightarrow> not_found
         | Some v \<Rightarrow>
             if v = [] then not_found
             else
               (case JSON_parse env v of
                  Inl e \<Rightarrow> ([], Throw e)
                | Inr parsedJson \<Rightarrow>
                    if truthy (opt_field (opt_field parsedJson (str ''data'')) (str ''id''))
                    then
                      (let userId = opt_field (opt_field parsedJson (str ''data'')) (str ''id'');
                           (fetch_effects, response) = getEnrolledLearningObjects env userId
                       in ([SetUserId userId] @ fetch_effects @
                           [SetLearningObjects
                              (case response of
                                 None \<Rightarrow> []
                               | Some r \<Rightarrow>
                                   (case learningObjectList r of None \<Rightarrow> [] | Some l \<Rightarrow> l))],
                           Normal))
                    else ([SetError (str ''User ID not found in the cookie data'')], Normal)))"

definition fetchData :: "environment \<Rightarrow> effect list \<times> completion" where
  "fetchData env =
     (case try_catch_finally (fetchData_try env)
             (\<lambda>e. ([SetError (str ''Error processing data: '' @ error_toString e),
                    ConsoleError (str ''Error in fetchData:'') e], Normal))
             [SetIsLoading False]
      of (es, c) \<Rightarrow> (SetIsLoading True # es, c))"

text \<open>The component state once the effects of \<open>fetchData\<close> are applied to \<open>s\<close>.\<close>

definition after_fetchData :: "component_state \<Rightarrow> environment \<Rightarrow> component_state" where
  "after_fetchData s env = apply_effects s (fst (fetchData env))"

section \<open>The availability check of a card\<close>

text \<open>
  The HTTP client. \<open>axios.get\<close> settles with a network failure or with a response; with
  axios' default \<open>validateStatus\<close> the promise resolves for a status in 200..299 and
  rejects otherwise.
\<close>

record axios_response =
  resp_status :: nat
  resp_data :: json

datatype http_outcome = NetworkError js_error | HttpResponse axios_response

definition axios_get :: "http_outcome \<Rightarrow> js_error + axios_response" where
  "axios_get outcome =
     (case outcome of
        NetworkError e \<Rightarrow> Inl e
      | HttpResponse r \<Rightarrow>
          if 200 \<le> resp_status r \<and> resp_status r < 300 then Inr r
          else Inl (JsError (str ''AxiosError'') (str ''Request failed'')))"

text \<open>
  \<open>checkCourseAvailability\<close> is an async function with one \<open>await\<close>. A click runs it up
  to the \<open>await\<close> (or to its end); the settled request runs the rest.
\<close>

datatype suspension = Finished completion | Awaiting

text \<open>The \<open>try\<close> block up to \<open>await axios.get(...)\<close>.\<close>

definition checkCourseAvailability_before_await ::
  "environment \<Rightarrow> jsstring \<Rightarrow> effect list \<times> suspension" where
  "checkCourseAvailability_before_await env courseId =
     (let almCpToken = getCookieByName (document_cookie env) (str ''alm_cp_token'');
          no_token = ([AlmAlert True (str ''AUTHENTICATION TOKEN NOT FOUND'') AlertType_error True,
                       SetApiCallInProgress False], Finished Return)
      in case almCpToken of
           None \<Rightarrow> no_token
         | Some token \<Rightarrow>
             if token = [] then no_token
             else
               (case encodeURIComponent env courseId of
                  Inl e \<Rightarrow> ([], Finished (Throw e))
                | Inr encoded \<Rightarrow>
                    ([AxiosGet (str ''https://learningmanager.adobe.com/primeapi/v2/learningObjects/'' @ encoded)
                        [(str ''Accept'', str ''application/vnd.api+json''),
                         (str ''Authorization'', str ''oauth '' @ token)]],
                     Awaiting)))"

text \<open>The \<open>try\<close> block after the \<open>await\<close>.\<close>

definition checkCourseAvailability_after_await ::
  "environment \<Rightarrow> http_outcome \<Rightarrow> effect list \<times> completion" where
  "checkCourseAvailability_after_await env outcome =
     (case axios_get outcome of
        Inl e \<Rightarrow> ([], Throw e)
      | Inr response \<Rightarrow>
          (case get_path (resp_data response)
                  [Field (str ''data''), Field (str ''attributes''),
                   Field (str ''localizedMetadata''), First, Field (str ''name'')] of
             Inl e \<Rightarrow> ([], Throw e)
           | Inr courseName \<Rightarrow>
               (let available =
                      (case ToString (Number_toString env) courseName of
                         Inl e \<Rightarrow> ([], Throw e)
                       | Inr name \<Rightarrow>
                           ([AlmAlert True
                               (str ''COURSE '' @ name @ str '' IS AVAILABLE FOR YOU!'')
                               AlertType_success True], Normal));
                    not_available =
                      (case ToString (Number_toString env) courseName of
                         Inl e \<Rightarrow> ([], Throw e)
                       | Inr name \<Rightarrow>
                           ([AlmAlert True
                               (str ''COURSE '' @ name @ str '' IS NOT AVAILABLE FOR YOU!'')
                               AlertType_error True], Normal))
                in if resp_status response = 200
                   then
                     (case get_path (resp_data response)
                             [Field (str ''data''), Field (str ''relationships''),
                              Field (str ''enrollment'')] of
                        Inl e \<Rightarrow> ([], Throw e)
                      | Inr enrollment \<Rightarrow> if truthy enrollment then available else not_available)
                   else not_available)))"

definition checkCourseAvailability_catch :: "js_error \<Rightarrow> effect list \<times> completion" where
  "checkCourseAvailability_catch e =
     ([AlmAlert True (str ''FAILED TO VERIFY COURSE AVAILABILITY'') AlertType_error True,
       ConsoleError (str ''Error checking course availability:'') e], Normal)"

text \<open>
  The part a click runs. \<open>in_progress\<close> is the value of \<open>apiCallInProgress\<close> captured
  by the closure, that of the render which created the handler.
\<close>

definition checkCourseAvailability_click ::
  "bool \<Rightarrow> environment \<Rightarrow> jsstring \<Rightarrow> effect list \<times> suspension" where
  "checkCourseAvailability_click in_progress env courseId =
     (if in_progress then ([], Finished Return)
      else
        (case checkCourseAvailability_before_await env courseId of
           (es, Awaiting) \<Rightarrow> ([PreventDefault, SetApiCallInProgress True] @ es, Awaiting)
         | (es, Finished c) \<Rightarrow>
             (case try_catch_finally (es, c) checkCourseAvailability_catch
                     [SetApiCallInProgress False] of
                (es', c') \<Rightarrow> ([PreventDefault, SetApiCallInProgress True] @ es', Finished c'))))"

text \<open>The part the settled request runs.\<close>

definition checkCourseAvailability_resume ::
  "environment \<Rightarrow> http_outcome \<Rightarrow> effect list \<times> completion" where
  "checkCourseAvailability_resume env outcome =
     try_catch_finally (checkCourseAvailability_after_await env outcome)
       checkCourseAvailability_catch [SetApiCallInProgress False]"

text \<open>A whole invocation, for a request that settles with \<open>outcome\<close>.\<close>

definition checkCourseAvailability ::
  "bool \<Rightarrow> environment \<Rightarrow> jsstring \<Rightarrow> http_outcome \<Rightarrow> effect list \<times> completion" where
  "checkCourseAvailability in_progress env courseId outcome =
     (case checkCourseAvailability_click in_progress env courseId of
        (es, Finished c) \<Rightarrow> (es, c)
      | (es, Awaiting) \<Rightarrow>
          (case checkCourseAvailability_resume env outcome of (es', c) \<Rightarrow> (es @ es', c)))"

text \<open>
  The browser follows the link of the card after the click handler unless the handler
  called \<open>preventDefault\<close> before it returned to the event loop.
\<close>

definition link_followed :: "effect list \<Rightarrow> bool" where
  "link_followed es \<longleftrightarrow> PreventDefault \<notin> set es"

section \<open>The mounted component as a machine of events\<close>

text \<open>
  React renders again after every event that sets state, so the handler a click runs is
  the one of the latest render: it has captured the current \<open>apiCallInProgress\<close>.
  \<open>in_flight\<close> counts the availability requests that were sent and have not settled.
\<close>

record session =
  st :: component_state
  in_flight :: nat
  trace :: "effect list"

datatype event =
    Mount environment
  | ChangeSearch jsstring
  | Click environment jsstring
  | Settle environment http_outcome

definition perform :: "session \<Rightarrow> effect list \<Rightarrow> session" where
  "perform s es = s\<lparr>st := apply_effects (st s) es, trace := trace s @ es\<rparr>"

fun step :: "session \<Rightarrow> event \<Rightarrow> session" where
  "step s (Mount env) = perform s (fst (fetchData env))"
| "step s (ChangeSearch t) = perform s [SetSearchTerm t]"
| "step s (Click env courseId) =
     (case checkCourseAvailability_click (apiCallInProgress (st s)) env courseId of
        (es, Awaiting) \<Rightarrow> (perform s es)\<lparr>in_flight := in_flight s + 1\<rparr>
      | (es, Finished c) \<Rightarrow> perform s es)"
| "step s (Settle env outcome) =
     (if in_flight s = 0 then s
      else (perform s (fst (checkCourseAvailability_resume env outcome)))
             \<lparr>in_flight := in_flight s - 1\<rparr>)"

definition run :: "session \<Rightarrow> event list \<Rightarrow> session" where
  "run s evs = foldl step s evs"

definition initial_session :: session where
  "initial_session = \<lparr>st = initial_state, in_flight = 0, trace = []\<rparr>"

section \<open>Rendering\<close>

text \<open>\<open>v || d\<close> for a string \<open>v\<close> that may be \<open>undefined\<close>: the empty string is falsy too.\<close>

definition or_else :: "jsstring option \<Rightarrow> jsstring \<Rightarrow> jsstring" where
  "or_else v d = (case v of None \<Rightarrow> d | Some s \<Rightarrow> if s = [] then d else s)"

text \<open>
  The element a card renders to: the React key, the link target, the image with its
  \<open>onError\<close> replacement, the title, the description and the click handler.
\<close>

record card =
  card_key :: nat
  href :: jsstring
  img_src :: jsstring
  img_alt :: jsstring
  img_onError_src :: jsstring
  courseTitle :: jsstring
  courseDescription :: jsstring
  onClick :: "environment \<Rightarrow> effect list \<times> suspension"

text \<open>
  The callback of \<open>learningObjects.map\<close> inside \<open>useMemo\<close> (the memoized grid);
  \<open>None\<close> is the \<open>null\<close> returned for an object without localized metadata.
\<close>

definition courseGrid_card :: "bool \<Rightarrow> nat \<Rightarrow> PrimeLearningObject \<Rightarrow> card option" where
  "courseGrid_card in_progress index course =
     (case localizedMetadata course of
        None \<Rightarrow> None
      | Some [] \<Rightarrow> None
      | Some (metadata # _) \<Rightarrow>
          (let instanceId = (case instances course of
                               None \<Rightarrow> []
                             | Some [] \<Rightarrow> []
                             | Some (i # _) \<Rightarrow> inst_id i);
               courseUrl = str ''http://localhost:4505/content/learning/language-masters/en/overview.html/trainingId/''
                           @ lo_id course @ str ''/trainingInstanceId/'' @ instanceId @ str ''/home.html'';
               fallbackImage = str ''https://img.freepik.com/free-vector/online-certification-illustration_23-2148575636.jpg?semt=ais_hybrid&w=740''
           in Some \<lparr>card_key = index,
                    href = courseUrl,
                    img_src = or_else (imageUrl course) fallbackImage,
                    img_alt = or_else (md_name metadata) (str ''Course image''),
                    img_onError_src = fallbackImage,
                    courseTitle = or_else (md_name metadata) (str ''Untitled Course''),
                    courseDescription =
                      (case md_description metadata of
                         None \<Rightarrow> str ''No description available''
                       | Some description \<Rightarrow>
                           if description = [] then str ''No description available''
                           else if length description > 100
                                then substring_to description 100 @ str ''...''
                                else description),
                    onClick = (\<lambda>env. checkCourseAvailability_click in_progress env (lo_id course))\<rparr>))"

text \<open>The callback of \<open>filteredCourses.map\<close> in the returned JSX (the inline grid).\<close>

definition inline_card :: "bool \<Rightarrow> nat \<Rightarrow> PrimeLearningObject \<Rightarrow> card option" where
  "inline_card in_progress index course =
     (case localizedMetadata course of
        None \<Rightarrow> None
      | Some [] \<Rightarrow> None
      | Some (metadata # _) \<Rightarrow>
          (let instanceId = (case instances course of
                               None \<Rightarrow> []
                             | Some [] \<Rightarrow> []
                             | Some (i # _) \<Rightarrow> inst_id i);
               courseUrl = str ''http://localhost:4505/content/learning/language-masters/en/overview.html/trainingId/''
                           @ lo_id course @ str ''/trainingInstanceId/'' @ instanceId @ str ''/home.html'';
               fallbackImage = str ''https://img.freepik.com/free-vector/online-certification-illustration_23-2148575636.jpg?semt=ais_hybrid&w=740''
           in Some \<lparr>card_key = index,
                    href = courseUrl,
                    img_src = or_else (imageUrl course) fallbackImage,
                    img_alt = or_else (md_name metadata) (str ''Course image''),
                    img_onError_src = fallbackImage,
                    courseTitle = or_else (md_name metadata) (str ''Untitled Course''),
                    courseDescription =
                      (case md_description metadata of
                         None \<Rightarrow> str ''No description available''
                       | Some description \<Rightarrow>
                           if description = [] then str ''No description available''
                           else if length description > 100
                                then substring_to description 100 @ str ''...''
                                else description),
                    onClick = (\<lambda>env. checkCourseAvailability_click in_progress env (lo_id course))\<rparr>))"

text \<open>\<open>xs.map((x, index) => f(x, index))\<close>.\<close>

definition map_index :: "(nat \<Rightarrow> 'a \<Rightarrow> 'b) \<Rightarrow> 'a list \<Rightarrow> 'b list" where
  "map_index f xs = map (\<lambda>(index, x). f index x) (enumerate 0 xs)"

text \<open>
  \<open>useMemo(compute, deps)\<close>: the cell of the hook holds the dependencies and the value of
  the last computation; the value is computed again only when the dependencies differ.
  React compares the array \<open>learningObjects\<close> by identity. The array is replaced once,
  by \<open>fetchData\<close>; when the new array has the contents of the initial one, both are
  empty and so is the grid, so comparing contents gives the same value.
\<close>

definition useMemo :: "('d \<times> 'v) option \<Rightarrow> 'd \<Rightarrow> 'v \<Rightarrow> 'v \<times> ('d \<times> 'v) option" where
  "useMemo cell deps computed =
     (case cell of
        None \<Rightarrow> (computed, Some (deps, computed))
      | Some (d, v) \<Rightarrow> if d = deps then (v, cell) else (computed, Some (deps, computed)))"

record hooks =
  courseGrid_cell :: "(PrimeLearningObject list \<times> card option list) option"

definition first_render_hooks :: hooks where
  "first_render_hooks = \<lparr>courseGrid_cell = None\<rparr>"

definition courseGrid :: "hooks \<Rightarrow> component_state \<Rightarrow> card option list \<times> hooks" where
  "courseGrid h s =
     (case useMemo (courseGrid_cell h) (learningObjects s)
             (map_index (courseGrid_card (apiCallInProgress s)) (learningObjects s)) of
        (grid, cell) \<Rightarrow> (grid, h\<lparr>courseGrid_cell := cell\<rparr>))"

text \<open>
  \<open>filteredCourses\<close> is memoized on \<open>[learningObjects, searchTerm]\<close> and depends on
  nothing else, so its value is that of the computation.
\<close>

definition filteredCourses :: "environment \<Rightarrow> component_state \<Rightarrow> PrimeLearningObject list" where
  "filteredCourses env s =
     (if trim (searchTerm s) = [] then learningObjects s
      else filter
             (\<lambda>course.
                case localizedMetadata course of
                  None \<Rightarrow> False
                | Some [] \<Rightarrow> False
                | Some (metadata # _) \<Rightarrow>
                    (case md_name metadata of
                       None \<Rightarrow> False
                     | Some name \<Rightarrow>
                         includes_str (toLowerCase env name) (toLowerCase env (searchTerm s)))
                    \<or>
                    (case md_description metadata of
                       None \<Rightarrow> False
                     | Some description \<Rightarrow>
                         includes_str (toLowerCase env description) (toLowerCase env (searchTerm s))))
             (learningObjects s))"

text \<open>The returned JSX below the heading.\<close>

record searchContainer =
  input_value :: jsstring
  resultsCount :: "(nat \<times> jsstring) option"

datatype content = CourseGrid "card option list" | NoCoursesMessage jsstring

datatype view =
    LoadingMessage jsstring
  | ErrorMessage jsstring
  | Loaded "searchContainer option" content

definition render_loaded :: "environment \<Rightarrow> component_state \<Rightarrow> view" where
  "render_loaded env s =
     Loaded
       (if length (learningObjects s) > 0
        then Some \<lparr>input_value = searchTerm s,
                   resultsCount =
                     (if searchTerm s \<noteq> []
                      then Some (length (filteredCourses env s),
                                 if length (filteredCourses env s) = 1
                                 then str ''course'' else str ''courses'')
                      else None)\<rparr>
        else None)
       (if length (learningObjects s) > 0
        then if length (filteredCourses env s) > 0
             then CourseGrid (map_index (inline_card (apiCallInProgress s)) (filteredCourses env s))
             else NoCoursesMessage (str ''No courses match your search criteria.'')
        else NoCoursesMessage (str ''No enrolled courses found.''))"

definition render_view :: "environment \<Rightarrow> component_state \<Rightarrow> view" where
  "render_view env s =
     (if isLoading s then LoadingMessage (str ''Loading your learning objects...'')
      else
        (case error s of
           None \<Rightarrow> render_loaded env s
         | Some message \<Rightarrow> if message = [] then render_loaded env s else ErrorMessage message))"

text \<open>One call of the component function: the hooks, then the JSX. \<open>courseGrid\<close> is computed and not used.\<close>

definition SakshiEnrolledLearningObjects ::
  "environment \<Rightarrow> hooks \<Rightarrow> component_state \<Rightarrow> view \<times> hooks" where
  "SakshiEnrolledLearningObjects env h s =
     (case courseGrid h s of (grid, h') \<Rightarrow> (render_view env s, h'))"

section \<open>The specification's notions\<close>

text \<open>
  The search as the specification words it: a term that is empty or consists of white
  space only selects everything; otherwise an object is selected when the name or the
  description of its first localized-metadata entry contains the term, ignoring case.
\<close>

definition whitespace_only :: "jsstring \<Rightarrow> bool" where
  "whitespace_only t \<longleftrightarrow> list_all is_whitespace t"

definition first_entry :: "PrimeLearningObject \<Rightarrow> PrimeLocalizationMetadata option" where
  "first_entry course =
     (case localizedMetadata course of
        None \<Rightarrow> None
      | Some [] \<Rightarrow> None
      | Some (m # _) \<Rightarrow> Some m)"

definition contains_ignoring_case :: "environment \<Rightarrow> jsstring option \<Rightarrow> jsstring \<Rightarrow> bool" where
  "contains_ignoring_case env text t \<longleftrightarrow>
     (case text of
        None \<Rightarrow> False
      | Some x \<Rightarrow> sublist (toLowerCase env t) (toLowerCase env x))"

definition spec_filteredCourses ::
  "environment \<Rightarrow> jsstring \<Rightarrow> PrimeLearningObject list \<Rightarrow> PrimeLearningObject list" where
  "spec_filteredCourses env t los =
     (if whitespace_only t then los
      else filter
             (\<lambda>course.
                case first_entry course of
                  None \<Rightarrow> False
                | Some m \<Rightarrow>
                    contains_ignoring_case env (md_name m) t \<or>
                    contains_ignoring_case env (md_description m) t)
             los)"

text \<open>The alerts among the effects, and the result count a view displays.\<close>

definition alerts :: "effect list \<Rightarrow> effect list" where
  "alerts es = filter is_AlmAlert es"

definition shown_count :: "view \<Rightarrow> (nat \<times> jsstring) option" where
  "shown_count v =
     (case v of
        Loaded (Some box) body \<Rightarrow> resultsCount box
      | _ \<Rightarrow> None)"

text \<open>The invariant of the guard: a request is in flight exactly while the flag is set.\<close>

definition guard_inv :: "session \<Rightarrow> bool" where
  "guard_inv s \<longleftrightarrow> in_flight s = (if apiCallInProgress (st s) then 1 else 0)"

section \<open>Example inputs\<close>

definition ascii_lower :: "jsstring \<Rightarrow> jsstring" where
  "ascii_lower s = map (\<lambda>c. if 65 \<le> unat c \<and> unat c \<le> 90 then c + 32 else c) s"

definition java_course :: PrimeLearningObject where
  "java_course =
     \<lparr>lo_id = str ''course:1'',
      localizedMetadata = Some [\<lparr>md_name = Some (str ''Java''), md_description = Some (str ''Intro'')\<rparr>],
      imageUrl = None,
      instances = Some [\<lparr>inst_id = str ''i1''\<rparr>]\<rparr>"

definition rust_course :: PrimeLearningObject where
  "rust_course =
     \<lparr>lo_id = str ''course:2'',
      localizedMetadata = Some [\<lparr>md_name = Some (str ''Rust''), md_description = Some []\<rparr>],
      imageUrl = Some (str ''r.png''),
      instances = None\<rparr>"

text \<open>
  The value of the cookie \<open>user\<close> in the examples is the JSON text
  \<open>{"data":{"id":"u1"}}\<close>; \<open>quoted\<close> puts a string between double quotes.
\<close>

definition quoted :: "jsstring \<Rightarrow> jsstring" where
  "quoted s = 34 # s @ [34]"

definition user_json_text :: jsstring where
  "user_json_text =
     str ''{'' @ quoted (str ''data'') @ str '':{'' @ quoted (str ''id'') @ str '':'' @
     quoted (str ''u1'') @ str ''}}''"

definition example_cookie :: jsstring where
  "example_cookie = str ''user='' @ user_json_text @ str ''; alm_cp_token=t0''"

text \<open>
  \<open>encodeURIComponent\<close> on ASCII text: letters, digits and \<open>- _ . ! ~ * ' ( )\<close> stay,
  every other code unit below 128 becomes \<open>%XX\<close>. The examples encode ASCII text only;
  other text is refused here.
\<close>

definition uri_unreserved :: "jschar \<Rightarrow> bool" where
  "uri_unreserved c \<longleftrightarrow>
     (let n = unat c in
        (65 \<le> n \<and> n \<le> 90) \<or> (97 \<le> n \<and> n \<le> 122) \<or> (48 \<le> n \<and> n \<le> 57) \<or>
        n = 45 \<or> n = 95 \<or> n = 46 \<or> n = 33 \<or> n = 126 \<or> n = 42 \<or> n = 39 \<or> n = 40 \<or> n = 41)"

definition hex_digit :: "nat \<Rightarrow> jschar" where
  "hex_digit n = (if n < 10 then of_nat (48 + n) else of_nat (55 + n))"

fun ascii_encodeURIComponent :: "jsstring \<Rightarrow> js_error + jsstring" where
  "ascii_encodeURIComponent [] = Inr []"
| "ascii_encodeURIComponent (c # cs) =
     (if 128 \<le> unat c then Inl (JsError (str ''URIError'') (str ''not ASCII''))
      else
        (case ascii_encodeURIComponent cs of
           Inl e \<Rightarrow> Inl e
         | Inr rest \<Rightarrow>
             Inr ((if uri_unreserved c then [c]
                   else [37, hex_digit (unat c div 16), hex_digit (unat c mod 16)]) @ rest)))"

text \<open>
  An environment with the given \<open>document.cookie\<close>. \<open>JSON.parse\<close> knows the texts the
  examples parse, \<open>{"data":{"id":"u1"}}\<close> and \<open>{}\<close>, and refuses every other text, among
  them \<open>oops\<close>; the catalog holds the two courses; no example converts a number.
\<close>

definition example_env :: "jsstring \<Rightarrow> environment" where
  "example_env cookie =
     \<lparr>document_cookie = cookie,
      JSON_parse =
        (\<lambda>t. if t = user_json_text then Inr (JObj [(str ''data'', JObj [(str ''id'', JStr (str ''u1''))])])
             else if t = str ''{}'' then Inr (JObj [])
             else Inl (JsError (str ''SyntaxError'') (str ''Unexpected token''))),
      primeApiURL = str ''/api'',
      RestAdapter_get = (\<lambda>url params. Inr (str ''payload'')),
      JsonApiParse = (\<lambda>response. Inr \<lparr>learningObjectList = Some [java_course, rust_course]\<rparr>),
      encodeURIComponent = ascii_encodeURIComponent,
      toLowerCase = ascii_lower,
      Number_toString = (\<lambda>n. str ''NaN'')\<rparr>"

text \<open>Responses of the availability endpoint.\<close>

definition enrolled_response :: "json \<Rightarrow> axios_response" where
  "enrolled_response metadata =
     \<lparr>resp_status = 200,
      resp_data =
        JObj [(str ''data'',
               JObj [(str ''attributes'', JObj [(str ''localizedMetadata'', JArr [metadata])]),
                     (str ''relationships'', JObj [(str ''enrollment'', JObj [])])])]\<rparr>"

definition not_enrolled_response :: "json \<Rightarrow> axios_response" where
  "not_enrolled_response metadata =
     \<lparr>resp_status = 200,
      resp_data =
        JObj [(str ''data'',
               JObj [(str ''attributes'', JObj [(str ''localizedMetadata'', JArr [metadata])]),
                     (str ''relationships'', JObj [])])]\<rparr>"

definition wordy_course :: PrimeLearningObject where
  "wordy_course =
     \<lparr>lo_id = str ''course:3'',
      localizedMetadata = Some [\<lparr>md_name = None, md_description = Some (replicate 101 97)\<rparr>],
      imageUrl = None,
      instances = Some []\<rparr>"

text \<open>
  The states of three renders in a row: the first render, the render after \<open>fetchData\<close>
  has loaded the catalog, and the render after a click on the first card has started a
  check; and the hooks as the renders of a list of states leave them.
\<close>

definition loaded_state :: component_state where
  "loaded_state = after_fetchData initial_state (example_env example_cookie)"

definition checking_state :: component_state where
  "checking_state =
     apply_effects loaded_state
       (fst (checkCourseAvailability_click (apiCallInProgress loaded_state)
               (example_env example_cookie) (str ''course:1'')))"

definition hooks_after :: "component_state list \<Rightarrow> hooks" where
  "hooks_after states = foldl (\<lambda>h s. snd (courseGrid h s)) first_render_hooks states"

text \<open>A loaded component with the two courses and the search term \<open>t\<close>.\<close>

definition searching :: "jsstring \<Rightarrow> component_state" where
  "searching t = initial_state\<lparr>learningObjects := [java_course, rust_course], isLoading := False,
                               searchTerm := t\<rparr>"

section \<open>Auxiliary facts\<close>


lemma str_eq_Nil_iff: "str s = [] \<longleftrightarrow> s = []"
  by (simp add: str_def)

lemma length_str: "length (str s) = length s"
  by (simp add: str_def)

lemma trim_empty_iff: "trim s = [] \<longleftrightarrow> (\<forall>c\<in>set s. is_whitespace c)"
proof -
  have "dropWhile is_whitespace (rev (dropWhile is_whitespace s)) = [] \<longleftrightarrow>
        (\<forall>c\<in>set (dropWhile is_whitespace s). is_whitespace c)"
    by (simp add: dropWhile_eq_Nil_conv)
  also have "\<dots> \<longleftrightarrow> (\<forall>c\<in>set s. is_whitespace c)"
  proof
    assume a: "\<forall>c\<in>set (dropWhile is_whitespace s). is_whitespace c"
    have "dropWhile is_whitespace s = []"
    proof (rule ccontr)
      assume n: "dropWhile is_whitespace s \<noteq> []"
      then have "\<not> is_whitespace (hd (dropWhile is_whitespace s))"
        by (rule hd_dropWhile)
      moreover have "hd (dropWhile is_whitespace s) \<in> set (dropWhile is_whitespace s)"
        using n by (rule hd_in_set)
      ultimately show False using a by blast
    qed
    then show "\<forall>c\<in>set s. is_whitespace c"
      by (simp add: dropWhile_eq_Nil_conv)
  next
    assume "\<forall>c\<in>set s. is_whitespace c"
    then show "\<forall>c\<in>set (dropWhile is_whitespace s). is_whitespace c"
      by (auto dest: set_dropWhileD)
  qed
  finally show ?thesis by (simp add: trim_def)
qed

lemma startsWith_prefix: "startsWith s p \<longleftrightarrow> prefix p s"
  unfolding startsWith_def
  by (metis append_eq_conv_conj prefix_def append_take_drop_id)

lemma includes_str_sublist: "includes_str hay needle \<longleftrightarrow> sublist needle hay"
  by (induction hay) (simp_all add: sublist_Cons_right startsWith_prefix)

lemma apply_effects_Nil: "apply_effects s [] = s"
  by (simp add: apply_effects_def)

lemma apply_effects_Cons: "apply_effects s (e # es) = apply_effects (apply_effect s e) es"
  by (simp add: apply_effects_def)

lemma apply_effects_append: "apply_effects s (a @ b) = apply_effects (apply_effects s a) b"
  by (simp add: apply_effects_def)

lemmas apply_effects_simps = apply_effects_Nil apply_effects_Cons apply_effects_append

lemma try_catch_finally_ends_with_finally:
  "\<exists>es. fst (try_catch_finally body handler fin) = es @ fin"
  by (auto simp: try_catch_finally_def split: prod.splits completion.splits)

lemma try_catch_finally_catches:
  assumes "\<And>e. snd (handler e) = Normal"
  shows "snd (try_catch_finally body handler fin) \<noteq> Throw e'"
proof (cases body)
  case (Pair es c)
  show ?thesis
  proof (cases c)
    case (Throw e)
    obtain hs hc where h: "handler e = (hs, hc)" by (cases "handler e")
    with assms [of e] have "hc = Normal" by simp
    with Pair Throw h show ?thesis by (simp add: try_catch_finally_def)
  qed (simp_all add: Pair try_catch_finally_def)
qed

lemma resume_resets_flag:
  "\<not> apiCallInProgress (apply_effects s (fst (checkCourseAvailability_resume env outcome)))"
proof -
  obtain es where "fst (checkCourseAvailability_resume env outcome) = es @ [SetApiCallInProgress False]"
    unfolding checkCourseAvailability_resume_def
    using try_catch_finally_ends_with_finally by blast
  then show ?thesis by (simp add: apply_effects_simps)
qed

lemma resume_never_throws:
  "snd (checkCourseAvailability_resume env outcome) \<noteq> Throw e"
  unfolding checkCourseAvailability_resume_def
  by (rule try_catch_finally_catches) (simp add: checkCourseAvailability_catch_def)

lemma click_in_progress:
  "checkCourseAvailability_click True env courseId = ([], Finished Return)"
  by (simp add: checkCourseAvailability_click_def)

lemma click_begins_check:
  "\<exists>es susp. checkCourseAvailability_click False env courseId =
      (PreventDefault # SetApiCallInProgress True # es, susp)"
  by (cases "checkCourseAvailability_before_await env courseId")
     (auto simp: checkCourseAvailability_click_def split: suspension.splits prod.splits)

lemma click_outcome:
  assumes "checkCourseAvailability_click False env courseId = (es, susp)"
  shows "(susp = Awaiting \<and> apiCallInProgress (apply_effects s es)) \<or>
         ((\<exists>c. susp = Finished c \<and> (\<forall>e. c \<noteq> Throw e)) \<and> \<not> apiCallInProgress (apply_effects s es))"
  using assms
  by (auto simp: checkCourseAvailability_click_def checkCourseAvailability_before_await_def
        checkCourseAvailability_catch_def try_catch_finally_def apply_effects_simps Let_def
      split: option.splits sum.splits if_splits)

lemma fetchData_keeps_flag:
  "apiCallInProgress (apply_effects s (fst (fetchData env))) = apiCallInProgress s"
  by (auto simp: fetchData_def fetchData_try_def getEnrolledLearningObjects_def
        try_catch_finally_def apply_effects_simps Let_def
      split: option.splits sum.splits if_splits prod.splits)


lemma guard_inv_step: "guard_inv s \<Longrightarrow> guard_inv (step s ev)"
proof (cases ev)
  case (Mount env)
  assume "guard_inv s"
  then show ?thesis using Mount
    by (simp add: guard_inv_def perform_def fetchData_keeps_flag)
next
  case (ChangeSearch t)
  assume "guard_inv s"
  then show ?thesis using ChangeSearch
    by (simp add: guard_inv_def perform_def apply_effects_simps)
next
  case (Click env courseId)
  assume inv: "guard_inv s"
  show ?thesis
  proof (cases "apiCallInProgress (st s)")
    case True
    with inv Click show ?thesis
      by (simp add: click_in_progress perform_def apply_effects_simps guard_inv_def)
  next
    case False
    obtain es susp where c: "checkCourseAvailability_click False env courseId = (es, susp)"
      by (cases "checkCourseAvailability_click False env courseId")
    from click_outcome [OF c, of "st s"] inv False Click c show ?thesis
      by (auto simp: guard_inv_def perform_def)
  qed
next
  case (Settle env outcome)
  assume "guard_inv s"
  then show ?thesis using Settle
    by (simp add: guard_inv_def perform_def resume_resets_flag)
qed

lemma guard_inv_run: "guard_inv s \<Longrightarrow> guard_inv (run s evs)"
  unfolding run_def by (induction evs arbitrary: s) (simp_all add: guard_inv_step)

lemma guard_inv_reachable: "guard_inv (run initial_session evs)"
  by (rule guard_inv_run) (simp add: guard_inv_def initial_session_def initial_state_def)

subsection \<open>Evaluations at the example inputs\<close>

lemma example_cookie_user:
  "getCookieByName example_cookie (str ''user'') = Some user_json_text"
  by (simp add: example_cookie_def user_json_text_def quoted_def getCookieByName_def str_def
        trim_def is_whitespace_def startsWith_def substring_from_def)

lemma user_json_text_not_empty: "user_json_text \<noteq> []"
  by (simp add: user_json_text_def quoted_def str_def)

lemma parse_user_json_text:
  "JSON_parse (example_env c) user_json_text =
     Inr (JObj [(str ''data'', JObj [(str ''id'', JStr (str ''u1''))])])"
  by (simp add: example_env_def)

lemma encode_course_ids:
  "ascii_encodeURIComponent (str ''course:1'') = Inr (str ''course%3A1'')"
  "ascii_encodeURIComponent (str ''course:2'') = Inr (str ''course%3A2'')"
  by (simp_all add: str_def uri_unreserved_def hex_digit_def)

lemma example_cookie_token:
  "getCookieByName example_cookie (str ''alm_cp_token'') = Some (str ''t0'')"
  by (simp add: example_cookie_def user_json_text_def quoted_def getCookieByName_def str_def
        trim_def is_whitespace_def startsWith_def substring_from_def)

lemma other_cookie_user:
  "getCookieByName (str ''theme=dark'') (str ''user'') = None"
  by (simp add: getCookieByName_def str_def trim_def is_whitespace_def startsWith_def)

lemma other_cookie_token:
  "getCookieByName (str ''theme=dark'') (str ''alm_cp_token'') = None"
  by (simp add: getCookieByName_def str_def trim_def is_whitespace_def startsWith_def)

lemma example_click:
  "checkCourseAvailability_click False (example_env example_cookie) (str ''course:1'') =
     ([PreventDefault, SetApiCallInProgress True,
       AxiosGet (str ''https://learningmanager.adobe.com/primeapi/v2/learningObjects/'' @ str ''course%3A1'')
         [(str ''Accept'', str ''application/vnd.api+json''),
          (str ''Authorization'', str ''oauth '' @ str ''t0'')]],
      Awaiting)"
  by (simp add: checkCourseAvailability_click_def checkCourseAvailability_before_await_def
        example_env_def example_cookie_token encode_course_ids str_eq_Nil_iff)

lemma example_click_2:
  "checkCourseAvailability_click False (example_env example_cookie) (str ''course:2'') =
     ([PreventDefault, SetApiCallInProgress True,
       AxiosGet (str ''https://learningmanager.adobe.com/primeapi/v2/learningObjects/'' @ str ''course%3A2'')
         [(str ''Accept'', str ''application/vnd.api+json''),
          (str ''Authorization'', str ''oauth '' @ str ''t0'')]],
      Awaiting)"
  by (simp add: checkCourseAvailability_click_def checkCourseAvailability_before_await_def
        example_env_def example_cookie_token encode_course_ids str_eq_Nil_iff)

lemma example_in_flight:
  "apiCallInProgress (st (run initial_session
      [Mount (example_env example_cookie), Click (example_env example_cookie) (str ''course:1'')]))"
  by (simp add: run_def perform_def fetchData_keeps_flag example_click apply_effects_simps
        initial_session_def initial_state_def)

section \<open>Claims about the availability check\<close>

text \<open>
  C1 (the code at the input where the claim fails). The claim: every invocation of the
  click handler calls \<open>preventDefault\<close>, so no click on a card results in navigation.
  A handler that has captured \<open>apiCallInProgress = true\<close>, which is the handler of every
  card while a check is in flight, returns before \<open>event.preventDefault()\<close>: it has no
  effect at all, and the browser follows the link of the card. So it is after the catalog
  has loaded and a click on the first card has sent its request: a click on the second
  card then follows the link.
\<close>

theorem click_in_flight_skips_preventDefault:
  "checkCourseAvailability_click True env courseId = ([], Finished Return) \<and>
   link_followed (fst (checkCourseAvailability_click True env courseId)) \<and>
   link_followed
     (fst (checkCourseAvailability_click
             (apiCallInProgress (st (run initial_session
                [Mount (example_env example_cookie),
                 Click (example_env example_cookie) (str ''course:1'')])))
             (example_env example_cookie) (str ''course:2'')))"
  by (simp add: example_in_flight click_in_progress link_followed_def)

text \<open>
  C2. Over every sequence of events from the initial state, at most one availability
  request is in flight, and while the flag \<open>apiCallInProgress\<close> is set a click on any card
  changes nothing: no request is sent, no check is started, nothing is queued.
\<close>

theorem click_in_flight_is_ignored:
  "in_flight (run initial_session evs) \<le> 1 \<and>
   (apiCallInProgress (st (run initial_session evs)) \<longrightarrow>
      step (run initial_session evs) (Click env courseId) = run initial_session evs)"
proof -
  have "guard_inv (run initial_session evs)" by (rule guard_inv_reachable)
  then have "in_flight (run initial_session evs) \<le> 1"
    by (simp add: guard_inv_def split: if_splits)
  moreover have "apiCallInProgress (st (run initial_session evs)) \<longrightarrow>
      step (run initial_session evs) (Click env courseId) = run initial_session evs"
    by (simp add: click_in_progress perform_def apply_effects_simps)
  ultimately show ?thesis by simp
qed


theorem click_in_flight_is_ignored_witness:
  "apiCallInProgress (st (run initial_session
      [Mount (example_env example_cookie), Click (example_env example_cookie) (str ''course:1'')])) \<and>
   in_flight (run initial_session
      [Mount (example_env example_cookie), Click (example_env example_cookie) (str ''course:1'')]) \<le> 1 \<and>
   step (run initial_session
      [Mount (example_env example_cookie), Click (example_env example_cookie) (str ''course:1'')])
      (Click (example_env example_cookie) (str ''course:2'')) =
   run initial_session
      [Mount (example_env example_cookie), Click (example_env example_cookie) (str ''course:1'')]"
  using click_in_flight_is_ignored
    [of "[Mount (example_env example_cookie), Click (example_env example_cookie) (str ''course:1'')]"
        "example_env example_cookie" "str ''course:2''"]
    example_in_flight
  by blast

text \<open>
  C4. A click that enters the handler (no check in flight) while the cookie
  \<open>alm_cp_token\<close> is absent shows the error alert "AUTHENTICATION TOKEN NOT FOUND" and
  returns; it sends no availability request.
\<close>

theorem missing_token_aborts:
  assumes "getCookieByName (document_cookie env) (str ''alm_cp_token'') = None"
  shows "checkCourseAvailability_click False env courseId =
           ([PreventDefault, SetApiCallInProgress True,
             AlmAlert True (str ''AUTHENTICATION TOKEN NOT FOUND'') AlertType_error True,
             SetApiCallInProgress False, SetApiCallInProgress False], Finished Return) \<and>
         \<not> list_ex is_AxiosGet (fst (checkCourseAvailability_click False env courseId))"
  using assms
  by (simp add: checkCourseAvailability_click_def checkCourseAvailability_before_await_def
        try_catch_finally_def)

theorem missing_token_aborts_witness:
  "getCookieByName (document_cookie (example_env (str ''theme=dark''))) (str ''alm_cp_token'') = None \<and>
   checkCourseAvailability_click False (example_env (str ''theme=dark'')) (str ''course:1'') =
     ([PreventDefault, SetApiCallInProgress True,
       AlmAlert True (str ''AUTHENTICATION TOKEN NOT FOUND'') AlertType_error True,
       SetApiCallInProgress False, SetApiCallInProgress False], Finished Return) \<and>
   \<not> list_ex is_AxiosGet
       (fst (checkCourseAvailability_click False (example_env (str ''theme=dark'')) (str ''course:1'')))"
proof -
  have h: "getCookieByName (document_cookie (example_env (str ''theme=dark''))) (str ''alm_cp_token'') = None"
    by (simp add: example_env_def other_cookie_token)
  from missing_token_aborts [OF h, of "str ''course:1''"] h show ?thesis by simp
qed

text \<open>
  C10. An invocation that begins a check ends, whatever the cookie and however the request
  settles, with \<open>apiCallInProgress\<close> set to \<open>false\<close> and without an uncaught exception.
  In every reachable state with the flag set exactly one request is in flight, and its
  settling resets the flag; with the flag reset, a click begins a new check.
\<close>

theorem guard_flag_is_reset:
  "\<not> apiCallInProgress (apply_effects s (fst (checkCourseAvailability False env courseId outcome))) \<and>
   (\<forall>e. snd (checkCourseAvailability False env courseId outcome) \<noteq> Throw e) \<and>
   (apiCallInProgress (st (run initial_session evs)) \<longrightarrow>
      in_flight (run initial_session evs) = 1 \<and>
      \<not> apiCallInProgress (st (step (run initial_session evs) (Settle env outcome)))) \<and>
   (\<not> apiCallInProgress (st (run initial_session evs)) \<longrightarrow>
      (\<exists>es susp. checkCourseAvailability_click (apiCallInProgress (st (run initial_session evs))) env courseId =
         (PreventDefault # SetApiCallInProgress True # es, susp)))"
proof -
  obtain es susp where c: "checkCourseAvailability_click False env courseId = (es, susp)"
    by (cases "checkCourseAvailability_click False env courseId")
  obtain es' c' where r: "checkCourseAvailability_resume env outcome = (es', c')"
    by (cases "checkCourseAvailability_resume env outcome")
  have reset: "\<not> apiCallInProgress (apply_effects (apply_effects s es) es')"
    using resume_resets_flag [of "apply_effects s es" env outcome] r by simp
  have nothrow: "c' \<noteq> Throw e" for e
    using resume_never_throws [of env outcome e] r by simp
  have first: "\<not> apiCallInProgress (apply_effects s (fst (checkCourseAvailability False env courseId outcome)))"
    using click_outcome [OF c, of s] c r reset
    by (auto simp: checkCourseAvailability_def apply_effects_simps)
  have second: "snd (checkCourseAvailability False env courseId outcome) \<noteq> Throw e" for e
    using click_outcome [OF c, of s] c r nothrow
    by (auto simp: checkCourseAvailability_def)
  have inv: "guard_inv (run initial_session evs)" by (rule guard_inv_reachable)
  have third: "apiCallInProgress (st (run initial_session evs)) \<longrightarrow>
      in_flight (run initial_session evs) = 1 \<and>
      \<not> apiCallInProgress (st (step (run initial_session evs) (Settle env outcome)))"
    using inv by (simp add: guard_inv_def perform_def resume_resets_flag)
  have fourth: "\<not> apiCallInProgress (st (run initial_session evs)) \<longrightarrow>
      (\<exists>es susp. checkCourseAvailability_click (apiCallInProgress (st (run initial_session evs))) env courseId =
         (PreventDefault # SetApiCallInProgress True # es, susp))"
    using click_begins_check [of env courseId] by simp
  from first second third fourth show ?thesis by blast
qed

theorem guard_flag_is_reset_witness:
  "apiCallInProgress (st (run initial_session
      [Mount (example_env example_cookie), Click (example_env example_cookie) (str ''course:1'')])) \<and>
   in_flight (run initial_session
      [Mount (example_env example_cookie), Click (example_env example_cookie) (str ''course:1'')]) = 1 \<and>
   \<not> apiCallInProgress (st (step (run initial_session
      [Mount (example_env example_cookie), Click (example_env example_cookie) (str ''course:1'')])
      (Settle (example_env example_cookie) (HttpResponse (enrolled_response (JObj [])))))) \<and>
   \<not> apiCallInProgress (st (run initial_session [])) \<and>
   (\<exists>es susp. checkCourseAvailability_click (apiCallInProgress (st (run initial_session [])))
        (example_env example_cookie) (str ''course:1'') =
      (PreventDefault # SetApiCallInProgress True # es, susp))"
proof -
  have idle: "\<not> apiCallInProgress (st (run initial_session []))"
    by (simp add: run_def initial_session_def initial_state_def)
  from guard_flag_is_reset
         [of initial_state "example_env example_cookie" "str ''course:1''"
             "HttpResponse (enrolled_response (JObj []))"
             "[Mount (example_env example_cookie), Click (example_env example_cookie) (str ''course:1'')]"]
       guard_flag_is_reset
         [of initial_state "example_env example_cookie" "str ''course:1''"
             "HttpResponse (enrolled_response (JObj []))" "[]"]
       example_in_flight idle
  show ?thesis by blast
qed

section \<open>Claims about loading the catalog\<close>


lemma fetchData_never_throws: "snd (fetchData env) \<noteq> Throw e"
proof -
  have "snd (try_catch_finally (fetchData_try env)
             (\<lambda>e. ([SetError (str ''Error processing data: '' @ error_toString e),
                    ConsoleError (str ''Error in fetchData:'') e], Normal))
             [SetIsLoading False]) \<noteq> Throw e"
    by (rule try_catch_finally_catches) simp
  then show ?thesis by (auto simp: fetchData_def split: prod.splits)
qed

text \<open>
  C3. On mount: when the cookie \<open>user\<close> is absent the error is "User data not found";
  when it is absent, or its value is not JSON (\<open>JSON.parse\<close> throws), or the parsed value
  has no \<open>data.id\<close> (the read gives \<open>undefined\<close>, which is falsy), a non-empty error
  message is set and shown in the error panel, loading has stopped, no catalog request was
  sent, and no exception leaves \<open>fetchData\<close>.
\<close>

theorem unresolved_session_sets_error:
  "(getCookieByName (document_cookie env) (str ''user'') = None \<longrightarrow>
      error (after_fetchData s env) = Some (str ''User data not found'')) \<and>
   (getCookieByName (document_cookie env) (str ''user'') = None \<or>
    (\<exists>v. getCookieByName (document_cookie env) (str ''user'') = Some v \<and>
         ((\<exists>e. JSON_parse env v = Inl e) \<or>
          (\<exists>j. JSON_parse env v = Inr j \<and>
               \<not> truthy (opt_field (opt_field j (str ''data'')) (str ''id''))))) \<longrightarrow>
      (\<exists>m. m \<noteq> [] \<and> error (after_fetchData s env) = Some m \<and>
           render_view env' (after_fetchData s env) = ErrorMessage m) \<and>
      \<not> isLoading (after_fetchData s env) \<and>
      \<not> list_ex is_RestAdapterGet (fst (fetchData env)) \<and>
      (\<forall>e. snd (fetchData env) \<noteq> Throw e))"
proof -
  have absent: "error (after_fetchData s env) = Some (str ''User data not found'') \<and>
      render_view env' (after_fetchData s env) = ErrorMessage (str ''User data not found'') \<and>
      \<not> isLoading (after_fetchData s env) \<and>
      \<not> list_ex is_RestAdapterGet (fst (fetchData env))"
    if "getCookieByName (document_cookie env) (str ''user'') = None \<or>
        getCookieByName (document_cookie env) (str ''user'') = Some []"
    using that
    by (auto simp: after_fetchData_def fetchData_def fetchData_try_def try_catch_finally_def
          apply_effects_simps render_view_def str_def)
  have malformed: "error (after_fetchData s env) = Some (str ''Error processing data: '' @ error_toString e) \<and>
      render_view env' (after_fetchData s env) =
        ErrorMessage (str ''Error processing data: '' @ error_toString e) \<and>
      \<not> isLoading (after_fetchData s env) \<and>
      \<not> list_ex is_RestAdapterGet (fst (fetchData env))"
    if "getCookieByName (document_cookie env) (str ''user'') = Some v" "v \<noteq> []"
       "JSON_parse env v = Inl e" for v e
    using that
    by (auto simp: after_fetchData_def fetchData_def fetchData_try_def try_catch_finally_def
          apply_effects_simps render_view_def str_def)
  have lacks: "error (after_fetchData s env) = Some (str ''User ID not found in the cookie data'') \<and>
      render_view env' (after_fetchData s env) =
        ErrorMessage (str ''User ID not found in the cookie data'') \<and>
      \<not> isLoading (after_fetchData s env) \<and>
      \<not> list_ex is_RestAdapterGet (fst (fetchData env))"
    if "getCookieByName (document_cookie env) (str ''user'') = Some v" "v \<noteq> []"
       "JSON_parse env v = Inr j" "\<not> truthy (opt_field (opt_field j (str ''data'')) (str ''id''))"
    for v j
    using that
    by (auto simp: after_fetchData_def fetchData_def fetchData_try_def try_catch_finally_def
          apply_effects_simps render_view_def str_def)
  have m1: "str ''User data not found'' \<noteq> []" by (simp add: str_def)
  have m2: "str ''Error processing data: '' @ x \<noteq> []" for x by (simp add: str_def)
  have m3: "str ''User ID not found in the cookie data'' \<noteq> []" by (simp add: str_def)
  show ?thesis
  proof (intro conjI impI)
    assume "getCookieByName (document_cookie env) (str ''user'') = None"
    then show "error (after_fetchData s env) = Some (str ''User data not found'')"
      using absent by blast
  next
    assume h: "getCookieByName (document_cookie env) (str ''user'') = None \<or>
      (\<exists>v. getCookieByName (document_cookie env) (str ''user'') = Some v \<and>
         ((\<exists>e. JSON_parse env v = Inl e) \<or>
          (\<exists>j. JSON_parse env v = Inr j \<and>
               \<not> truthy (opt_field (opt_field j (str ''data'')) (str ''id'')))))"
    then consider
        (a) "getCookieByName (document_cookie env) (str ''user'') = None \<or>
             getCookieByName (document_cookie env) (str ''user'') = Some []"
      | (b) v e where "getCookieByName (document_cookie env) (str ''user'') = Some v" "v \<noteq> []"
             "JSON_parse env v = Inl e"
      | (c) v j where "getCookieByName (document_cookie env) (str ''user'') = Some v" "v \<noteq> []"
             "JSON_parse env v = Inr j"
             "\<not> truthy (opt_field (opt_field j (str ''data'')) (str ''id''))"
      by (cases "getCookieByName (document_cookie env) (str ''user'') = Some []") auto
    then have "(\<exists>m. m \<noteq> [] \<and> error (after_fetchData s env) = Some m \<and>
           render_view env' (after_fetchData s env) = ErrorMessage m) \<and>
      \<not> isLoading (after_fetchData s env) \<and>
      \<not> list_ex is_RestAdapterGet (fst (fetchData env))"
    proof cases
      case a
      from absent [OF a] m1 show ?thesis by blast
    next
      case b
      from malformed [OF b] m2 show ?thesis by blast
    next
      case c
      from lacks [OF c] m3 show ?thesis by blast
    qed
    then show "\<exists>m. m \<noteq> [] \<and> error (after_fetchData s env) = Some m \<and>
           render_view env' (after_fetchData s env) = ErrorMessage m"
      and "\<not> isLoading (after_fetchData s env)"
      and "\<not> list_ex is_RestAdapterGet (fst (fetchData env))"
      by blast+
    show "\<forall>e. snd (fetchData env) \<noteq> Throw e"
      by (simp add: fetchData_never_throws)
  qed
qed

lemma cookie_oops: "getCookieByName (str ''user=oops'') (str ''user'') = Some (str ''oops'')"
  by (simp add: getCookieByName_def str_def trim_def is_whitespace_def startsWith_def substring_from_def)

lemma cookie_braces: "getCookieByName (str ''user={}'') (str ''user'') = Some (str ''{}'')"
  by (simp add: getCookieByName_def str_def trim_def is_whitespace_def startsWith_def substring_from_def)

lemma parse_oops:
  "JSON_parse (example_env c) (str ''oops'') = Inl (JsError (str ''SyntaxError'') (str ''Unexpected token''))"
  by (simp add: example_env_def user_json_text_def quoted_def str_def)

lemma parse_braces: "JSON_parse (example_env c) (str ''{}'') = Inr (JObj [])"
  by (simp add: example_env_def user_json_text_def quoted_def str_def)

theorem unresolved_session_sets_error_witness:
  "(getCookieByName (document_cookie (example_env (str ''theme=dark''))) (str ''user'') = None \<and>
    error (after_fetchData initial_state (example_env (str ''theme=dark''))) =
      Some (str ''User data not found'') \<and>
    \<not> isLoading (after_fetchData initial_state (example_env (str ''theme=dark''))) \<and>
    \<not> list_ex is_RestAdapterGet (fst (fetchData (example_env (str ''theme=dark''))))) \<and>
   (getCookieByName (document_cookie (example_env (str ''user=oops''))) (str ''user'') = Some (str ''oops'') \<and>
    JSON_parse (example_env (str ''user=oops'')) (str ''oops'') =
      Inl (JsError (str ''SyntaxError'') (str ''Unexpected token'')) \<and>
    \<not> isLoading (after_fetchData initial_state (example_env (str ''user=oops''))) \<and>
    \<not> list_ex is_RestAdapterGet (fst (fetchData (example_env (str ''user=oops''))))) \<and>
   (getCookieByName (document_cookie (example_env (str ''user={}''))) (str ''user'') = Some (str ''{}'') \<and>
    JSON_parse (example_env (str ''user={}'')) (str ''{}'') = Inr (JObj []) \<and>
    \<not> truthy (opt_field (opt_field (JObj []) (str ''data'')) (str ''id'')) \<and>
    \<not> isLoading (after_fetchData initial_state (example_env (str ''user={}''))) \<and>
    \<not> list_ex is_RestAdapterGet (fst (fetchData (example_env (str ''user={}'')))))"
proof -
  have a: "getCookieByName (document_cookie (example_env (str ''theme=dark''))) (str ''user'') = None"
    by (simp add: example_env_def other_cookie_user)
  have b1: "getCookieByName (document_cookie (example_env (str ''user=oops''))) (str ''user'') = Some (str ''oops'')"
    by (simp add: example_env_def cookie_oops)
  have b2: "JSON_parse (example_env (str ''user=oops'')) (str ''oops'') =
      Inl (JsError (str ''SyntaxError'') (str ''Unexpected token''))"
    by (rule parse_oops)
  have c1: "getCookieByName (document_cookie (example_env (str ''user={}''))) (str ''user'') = Some (str ''{}'')"
    by (simp add: example_env_def cookie_braces)
  have c2: "JSON_parse (example_env (str ''user={}'')) (str ''{}'') = Inr (JObj [])"
    by (rule parse_braces)
  have c3: "\<not> truthy (opt_field (opt_field (JObj []) (str ''data'')) (str ''id''))"
    by (simp add: opt_field_def)
  from unresolved_session_sets_error [of "example_env (str ''theme=dark'')" initial_state]
       unresolved_session_sets_error [of "example_env (str ''user=oops'')" initial_state]
       unresolved_session_sets_error [of "example_env (str ''user={}'')" initial_state]
       a b1 b2 c1 c2 c3
  show ?thesis by blast
qed

section \<open>Claims about the notifications\<close>

text \<open>
  C5 (counterexample). Two responses with status 200 and an enrollment relationship. The
  first has no \<open>attributes\<close>: reading the name throws, and the generic failure is shown,
  not the success notification. The second lacks only the \<open>name\<close> of the first metadata
  entry: nothing throws, and the success notification is shown with the name
  \<open>undefined\<close>, not the generic failure. So neither "status 200 with enrollment gives
  success" nor "a missing field gives the generic notification" holds of every response.
\<close>

theorem response_missing_fields_counterexample:
  "get_path (JObj [(str ''data'', JObj [(str ''relationships'', JObj [(str ''enrollment'', JObj [])])])])
     [Field (str ''data''), Field (str ''relationships''), Field (str ''enrollment'')] = Inr (JObj []) \<and>
   alerts (fst (checkCourseAvailability_resume (example_env example_cookie)
     (HttpResponse \<lparr>resp_status = 200,
        resp_data = JObj [(str ''data'', JObj [(str ''relationships'', JObj [(str ''enrollment'', JObj [])])])]\<rparr>))) =
     [AlmAlert True (str ''FAILED TO VERIFY COURSE AVAILABILITY'') AlertType_error True] \<and>
   get_path (resp_data (enrolled_response (JObj [])))
     [Field (str ''data''), Field (str ''attributes''), Field (str ''localizedMetadata''), First,
      Field (str ''name'')] = Inr JUndefined \<and>
   alerts (fst (checkCourseAvailability_resume (example_env example_cookie)
     (HttpResponse (enrolled_response (JObj []))))) =
     [AlmAlert True (str ''COURSE undefined IS AVAILABLE FOR YOU!'') AlertType_success True]"
  by (simp add: alerts_def checkCourseAvailability_resume_def checkCourseAvailability_after_await_def
        checkCourseAvailability_catch_def enrolled_response_def axios_get_def try_catch_finally_def
        example_env_def, simp add: str_def)

lemma get_field_throws_iff: "get_field v k = Inl e \<longleftrightarrow> (v = JUndefined \<or> v = JNull) \<and> e = TypeError"
  by (cases v) auto

lemma get_first_throws_iff: "get_first v = Inl e \<longleftrightarrow> (v = JUndefined \<or> v = JNull) \<and> e = TypeError"
  by (cases v) auto

lemma resume_alerts:
  "alerts (fst (checkCourseAvailability_resume env outcome)) =
     alerts (fst (case checkCourseAvailability_after_await env outcome of
                    (es, Throw e) \<Rightarrow>
                      (es @ [AlmAlert True (str ''FAILED TO VERIFY COURSE AVAILABILITY'') AlertType_error True],
                       Normal)
                  | (es, c) \<Rightarrow> (es, c)))"
  by (simp add: checkCourseAvailability_resume_def checkCourseAvailability_catch_def
        try_catch_finally_def alerts_def split: prod.splits completion.splits)

text \<open>
  C5 (amended). For a request that has settled: a response with status 200 whose name and
  enrollment can be read, whose enrollment is truthy and whose name converts to a string
  gives the success notification "COURSE name IS AVAILABLE FOR YOU!"; a response with a
  status in 200..299 whose name can be read and converts to a string, and whose status is
  not 200 or whose enrollment is absent or falsy, gives the failure notification
  "COURSE name IS NOT AVAILABLE FOR YOU!"; a network error, a status outside 200..299, a
  name that cannot be read, at status 200 an enrollment that cannot be read, or a name
  whose conversion to a string throws gives the generic
  "FAILED TO VERIFY COURSE AVAILABILITY". A read fails when an object on its path is
  \<open>undefined\<close> or \<open>null\<close>; a missing last field reads as \<open>undefined\<close>, which converts
  to "undefined".
\<close>

theorem availability_notifications:
  "(outcome = HttpResponse r \<and> resp_status r = 200 \<and>
    get_path (resp_data r)
      [Field (str ''data''), Field (str ''attributes''), Field (str ''localizedMetadata''), First,
       Field (str ''name'')] = Inr courseName \<and>
    get_path (resp_data r)
      [Field (str ''data''), Field (str ''relationships''), Field (str ''enrollment'')] = Inr enrollment \<and>
    truthy enrollment \<and>
    ToString (Number_toString env) courseName = Inr shown \<longrightarrow>
      alerts (fst (checkCourseAvailability_resume env outcome)) =
        [AlmAlert True (str ''COURSE '' @ shown @ str '' IS AVAILABLE FOR YOU!'') AlertType_success True]) \<and>
   (outcome = HttpResponse r \<and> 200 \<le> resp_status r \<and> resp_status r < 300 \<and>
    get_path (resp_data r)
      [Field (str ''data''), Field (str ''attributes''), Field (str ''localizedMetadata''), First,
       Field (str ''name'')] = Inr courseName \<and>
    (resp_status r \<noteq> 200 \<or>
     get_path (resp_data r)
       [Field (str ''data''), Field (str ''relationships''), Field (str ''enrollment'')] = Inr enrollment \<and>
     \<not> truthy enrollment) \<and>
    ToString (Number_toString env) courseName = Inr shown \<longrightarrow>
      alerts (fst (checkCourseAvailability_resume env outcome)) =
        [AlmAlert True (str ''COURSE '' @ shown @ str '' IS NOT AVAILABLE FOR YOU!'') AlertType_error True]) \<and>
   (outcome = NetworkError e \<or>
    outcome = HttpResponse r \<and>
      (\<not> (200 \<le> resp_status r \<and> resp_status r < 300) \<or>
       get_path (resp_data r)
         [Field (str ''data''), Field (str ''attributes''), Field (str ''localizedMetadata''), First,
          Field (str ''name'')] = Inl e \<or>
       resp_status r = 200 \<and>
       get_path (resp_data r)
         [Field (str ''data''), Field (str ''relationships''), Field (str ''enrollment'')] = Inl e \<or>
       get_path (resp_data r)
         [Field (str ''data''), Field (str ''attributes''), Field (str ''localizedMetadata''), First,
          Field (str ''name'')] = Inr courseName \<and>
       ToString (Number_toString env) courseName = Inl e) \<longrightarrow>
      alerts (fst (checkCourseAvailability_resume env outcome)) =
        [AlmAlert True (str ''FAILED TO VERIFY COURSE AVAILABILITY'') AlertType_error True])"
proof -
  let ?name = "get_path (resp_data r)
      [Field (str ''data''), Field (str ''attributes''), Field (str ''localizedMetadata''), First,
       Field (str ''name'')]"
  let ?enr = "get_path (resp_data r)
      [Field (str ''data''), Field (str ''relationships''), Field (str ''enrollment'')]"
  let ?alerts = "alerts (fst (checkCourseAvailability_resume env outcome))"
  let ?generic = "[AlmAlert True (str ''FAILED TO VERIFY COURSE AVAILABILITY'') AlertType_error True]"
  have ok: "axios_get (HttpResponse r) = Inr r" if "200 \<le> resp_status r" "resp_status r < 300"
    using that by (simp add: axios_get_def)
  have first: "?alerts =
      [AlmAlert True (str ''COURSE '' @ shown @ str '' IS AVAILABLE FOR YOU!'') AlertType_success True]"
    if "outcome = HttpResponse r" "resp_status r = 200" "?name = Inr courseName"
       "?enr = Inr enrollment" "truthy enrollment"
       "ToString (Number_toString env) courseName = Inr shown"
    using that
    by (subst resume_alerts)
       (simp add: checkCourseAvailability_after_await_def axios_get_def Let_def alerts_def
          del: get_path.simps)
  have second: "?alerts =
      [AlmAlert True (str ''COURSE '' @ shown @ str '' IS NOT AVAILABLE FOR YOU!'') AlertType_error True]"
    if "outcome = HttpResponse r" "200 \<le> resp_status r" "resp_status r < 300"
       "?name = Inr courseName"
       "resp_status r \<noteq> 200 \<or> ?enr = Inr enrollment \<and> \<not> truthy enrollment"
       "ToString (Number_toString env) courseName = Inr shown"
    using that
    by (subst resume_alerts)
       (auto simp add: checkCourseAvailability_after_await_def axios_get_def Let_def alerts_def
          simp del: get_path.simps)
  have net: "?alerts = ?generic" if "outcome = NetworkError e'" for e'
    using that
    by (subst resume_alerts)
       (simp add: checkCourseAvailability_after_await_def axios_get_def alerts_def)
  have bad: "?alerts = ?generic"
    if "outcome = HttpResponse r" "\<not> (200 \<le> resp_status r \<and> resp_status r < 300)"
  proof -
    from that have "axios_get outcome = Inl (JsError (str ''AxiosError'') (str ''Request failed''))"
      by (simp add: axios_get_def)
    then show ?thesis
      by (subst resume_alerts) (simp add: checkCourseAvailability_after_await_def alerts_def)
  qed
  have good: "?alerts = ?generic"
    if "outcome = HttpResponse r" "200 \<le> resp_status r" "resp_status r < 300"
       "?name = Inl e \<or> resp_status r = 200 \<and> ?enr = Inl e \<or>
        ?name = Inr courseName \<and> ToString (Number_toString env) courseName = Inl e"
    using that
    by (subst resume_alerts)
       (auto simp add: checkCourseAvailability_after_await_def axios_get_def Let_def alerts_def
          simp del: get_path.simps split: sum.splits)
  have third: "?alerts = ?generic"
    if h: "outcome = NetworkError e \<or>
        outcome = HttpResponse r \<and>
          (\<not> (200 \<le> resp_status r \<and> resp_status r < 300) \<or> ?name = Inl e \<or>
           resp_status r = 200 \<and> ?enr = Inl e \<or>
           ?name = Inr courseName \<and> ToString (Number_toString env) courseName = Inl e)"
  proof (cases "200 \<le> resp_status r \<and> resp_status r < 300")
    case True
    with h net good show ?thesis by blast
  next
    case False
    with h net bad show ?thesis by blast
  qed
  from first second third show ?thesis by blast
qed

lemma name_of_enrolled:
  "get_path (resp_data (enrolled_response m))
     [Field (str ''data''), Field (str ''attributes''), Field (str ''localizedMetadata''), First,
      Field (str ''name'')] = get_field m (str ''name'')"
  by (simp add: enrolled_response_def str_def split: sum.splits)

lemma enrollment_of_enrolled:
  "get_path (resp_data (enrolled_response m))
     [Field (str ''data''), Field (str ''relationships''), Field (str ''enrollment'')] = Inr (JObj [])"
  by (simp add: enrolled_response_def str_def)

lemma name_of_not_enrolled:
  "get_path (resp_data (not_enrolled_response m))
     [Field (str ''data''), Field (str ''attributes''), Field (str ''localizedMetadata''), First,
      Field (str ''name'')] = get_field m (str ''name'')"
  by (simp add: not_enrolled_response_def str_def split: sum.splits)

lemma enrollment_of_not_enrolled:
  "get_path (resp_data (not_enrolled_response m))
     [Field (str ''data''), Field (str ''relationships''), Field (str ''enrollment'')] = Inr JUndefined"
  by (simp add: not_enrolled_response_def str_def)

theorem availability_notifications_witness:
  "alerts (fst (checkCourseAvailability_resume (example_env example_cookie)
       (HttpResponse (enrolled_response (JObj [(str ''name'', JStr (str ''Java''))]))))) =
     [AlmAlert True (str ''COURSE '' @ str ''Java'' @ str '' IS AVAILABLE FOR YOU!'') AlertType_success True] \<and>
   alerts (fst (checkCourseAvailability_resume (example_env example_cookie)
       (HttpResponse (not_enrolled_response (JObj [(str ''name'', JStr (str ''Java''))]))))) =
     [AlmAlert True (str ''COURSE '' @ str ''Java'' @ str '' IS NOT AVAILABLE FOR YOU!'') AlertType_error True] \<and>
   alerts (fst (checkCourseAvailability_resume (example_env example_cookie)
       (NetworkError (JsError (str ''Error'') (str ''Network Error''))))) =
     [AlmAlert True (str ''FAILED TO VERIFY COURSE AVAILABILITY'') AlertType_error True] \<and>
   alerts (fst (checkCourseAvailability_resume (example_env example_cookie)
       (HttpResponse (enrolled_response JNull)))) =
     [AlmAlert True (str ''FAILED TO VERIFY COURSE AVAILABILITY'') AlertType_error True] \<and>
   ToString (Number_toString (example_env example_cookie)) (JObj [(str ''toString'', JNum 1)]) =
     Inl ConversionError \<and>
   alerts (fst (checkCourseAvailability_resume (example_env example_cookie)
       (HttpResponse (enrolled_response (JObj [(str ''name'', JObj [(str ''toString'', JNum 1)])]))))) =
     [AlmAlert True (str ''FAILED TO VERIFY COURSE AVAILABILITY'') AlertType_error True]"
proof -
  let ?m = "JObj [(str ''name'', JStr (str ''Java''))]"
  let ?t = "JObj [(str ''name'', JObj [(str ''toString'', JNum 1)])]"
  let ?E = "example_env example_cookie"
  have n1: "get_path (resp_data (enrolled_response ?m))
     [Field (str ''data''), Field (str ''attributes''), Field (str ''localizedMetadata''), First,
      Field (str ''name'')] = Inr (JStr (str ''Java''))"
    by (subst name_of_enrolled) simp
  have n2: "get_path (resp_data (not_enrolled_response ?m))
     [Field (str ''data''), Field (str ''attributes''), Field (str ''localizedMetadata''), First,
      Field (str ''name'')] = Inr (JStr (str ''Java''))"
    by (subst name_of_not_enrolled) simp
  have n3: "get_path (resp_data (enrolled_response JNull))
     [Field (str ''data''), Field (str ''attributes''), Field (str ''localizedMetadata''), First,
      Field (str ''name'')] = Inl TypeError"
    by (subst name_of_enrolled) simp
  have n4: "get_path (resp_data (enrolled_response ?t))
     [Field (str ''data''), Field (str ''attributes''), Field (str ''localizedMetadata''), First,
      Field (str ''name'')] = Inr (JObj [(str ''toString'', JNum 1)])"
    by (subst name_of_enrolled) simp
  have s1: "resp_status (enrolled_response m) = 200" for m by (simp add: enrolled_response_def)
  have s2: "resp_status (not_enrolled_response m) = 200" for m by (simp add: not_enrolled_response_def)
  have t1: "ToString (Number_toString ?E) (JStr (str ''Java'')) = Inr (str ''Java'')" by simp
  have t2: "ToString (Number_toString ?E) (JObj [(str ''toString'', JNum 1)]) = Inl ConversionError"
    by simp
  have tr: "truthy (JObj [])" "\<not> truthy JUndefined" by simp_all
  have a: "alerts (fst (checkCourseAvailability_resume ?E (HttpResponse (enrolled_response ?m)))) =
     [AlmAlert True (str ''COURSE '' @ str ''Java'' @ str '' IS AVAILABLE FOR YOU!'') AlertType_success True]"
    using availability_notifications
      [of "HttpResponse (enrolled_response ?m)" "enrolled_response ?m" "JStr (str ''Java'')" "JObj []"
          ?E "str ''Java''" TypeError]
      n1 s1 [of ?m] enrollment_of_enrolled [of ?m] t1 tr
    by blast
  have b: "alerts (fst (checkCourseAvailability_resume ?E (HttpResponse (not_enrolled_response ?m)))) =
     [AlmAlert True (str ''COURSE '' @ str ''Java'' @ str '' IS NOT AVAILABLE FOR YOU!'') AlertType_error True]"
  proof -
    have range: "200 \<le> resp_status (not_enrolled_response ?m)" "resp_status (not_enrolled_response ?m) < 300"
      by (simp_all add: s2)
    from availability_notifications
      [of "HttpResponse (not_enrolled_response ?m)" "not_enrolled_response ?m" "JStr (str ''Java'')" JUndefined
          ?E "str ''Java''" TypeError]
      n2 range enrollment_of_not_enrolled [of ?m] t1 tr
    show ?thesis by blast
  qed
  have c: "alerts (fst (checkCourseAvailability_resume ?E
       (NetworkError (JsError (str ''Error'') (str ''Network Error''))))) =
     [AlmAlert True (str ''FAILED TO VERIFY COURSE AVAILABILITY'') AlertType_error True]"
    using availability_notifications
      [of "NetworkError (JsError (str ''Error'') (str ''Network Error''))" undefined undefined undefined
          ?E undefined "JsError (str ''Error'') (str ''Network Error'')"]
    by blast
  have d: "alerts (fst (checkCourseAvailability_resume ?E (HttpResponse (enrolled_response JNull)))) =
     [AlmAlert True (str ''FAILED TO VERIFY COURSE AVAILABILITY'') AlertType_error True]"
    using availability_notifications
      [of "HttpResponse (enrolled_response JNull)" "enrolled_response JNull" undefined undefined
          ?E undefined TypeError]
      n3
    by blast
  have e: "alerts (fst (checkCourseAvailability_resume ?E (HttpResponse (enrolled_response ?t)))) =
     [AlmAlert True (str ''FAILED TO VERIFY COURSE AVAILABILITY'') AlertType_error True]"
    using availability_notifications
      [of "HttpResponse (enrolled_response ?t)" "enrolled_response ?t"
          "JObj [(str ''toString'', JNum 1)]" undefined ?E undefined ConversionError]
      n4 t2
    by blast
  from a b c d t2 e show ?thesis by blast
qed

section \<open>Claims about the search and the rendering\<close>

lemma ascii_lower_examples:
  "ascii_lower (str ''JAVA'') = str ''java''"
  "ascii_lower (str ''Java'') = str ''java''"
  "ascii_lower (str ''Intro'') = str ''intro''"
  "ascii_lower (str ''Rust'') = str ''rust''"
  "ascii_lower (str ''go'') = str ''go''"
  "ascii_lower [] = []"
  by (simp_all add: ascii_lower_def str_def)

lemma includes_str_examples:
  "includes_str (str ''java'') (str ''java'')"
  "\<not> includes_str (str ''rust'') (str ''java'')"
  "\<not> includes_str [] (str ''java'')"
  "\<not> includes_str (str ''java'') (str ''go'')"
  "\<not> includes_str (str ''intro'') (str ''go'')"
  "\<not> includes_str (str ''rust'') (str ''go'')"
  "\<not> includes_str [] (str ''go'')"
  by (simp_all add: str_def startsWith_def)

lemma trim_examples:
  "trim (str ''JAVA'') \<noteq> []"
  "trim (str ''go'') \<noteq> []"
  "trim (str ''  '') = []"
  by (simp_all add: trim_def is_whitespace_def str_def)

lemma filtered_JAVA:
  "filteredCourses (example_env example_cookie) (searching (str ''JAVA'')) = [java_course]"
  by (simp add: filteredCourses_def searching_def example_env_def java_course_def rust_course_def
        trim_examples ascii_lower_examples includes_str_examples str_eq_Nil_iff)

lemma filtered_blank:
  "filteredCourses (example_env example_cookie) (searching (str ''  '')) = [java_course, rust_course]"
  by (simp add: filteredCourses_def searching_def trim_examples)

lemma filtered_go:
  "filteredCourses (example_env example_cookie) (searching (str ''go'')) = []"
  by (simp add: filteredCourses_def searching_def example_env_def java_course_def rust_course_def
        trim_examples ascii_lower_examples includes_str_examples str_eq_Nil_iff)

text \<open>
  C6. For every fetched list and search term the filtered list is the one the
  specification describes: the whole list when the term is empty or white space only,
  and otherwise exactly the objects that have a first localized-metadata entry whose name
  or description contains the term, both lower-cased, as a contiguous run.
\<close>

theorem filteredCourses_is_case_insensitive_search:
  "filteredCourses env s = spec_filteredCourses env (searchTerm s) (learningObjects s)"
proof -
  have blank: "trim (searchTerm s) = [] \<longleftrightarrow> whitespace_only (searchTerm s)"
    by (simp add: trim_empty_iff whitespace_only_def list_all_iff)
  have same: "(case localizedMetadata course of
                  None \<Rightarrow> False
                | Some [] \<Rightarrow> False
                | Some (metadata # _) \<Rightarrow>
                    (case md_name metadata of
                       None \<Rightarrow> False
                     | Some name \<Rightarrow>
                         includes_str (toLowerCase env name) (toLowerCase env (searchTerm s)))
                    \<or>
                    (case md_description metadata of
                       None \<Rightarrow> False
                     | Some description \<Rightarrow>
                         includes_str (toLowerCase env description) (toLowerCase env (searchTerm s))))
              \<longleftrightarrow>
              (case first_entry course of
                  None \<Rightarrow> False
                | Some m \<Rightarrow>
                    contains_ignoring_case env (md_name m) (searchTerm s) \<or>
                    contains_ignoring_case env (md_description m) (searchTerm s))" for course
    by (simp add: first_entry_def contains_ignoring_case_def includes_str_sublist
          split: option.splits list.splits)
  show ?thesis
    unfolding filteredCourses_def spec_filteredCourses_def blank same ..
qed

theorem filteredCourses_is_case_insensitive_search_witness:
  "spec_filteredCourses (example_env example_cookie) (str ''JAVA'') [java_course, rust_course] = [java_course] \<and>
   spec_filteredCourses (example_env example_cookie) (str ''  '') [java_course, rust_course] =
     [java_course, rust_course]"
proof -
  have s: "searchTerm (searching t) = t" "learningObjects (searching t) = [java_course, rust_course]" for t
    by (simp_all add: searching_def)
  from filteredCourses_is_case_insensitive_search [of "example_env example_cookie" "searching (str ''JAVA'')"]
       filteredCourses_is_case_insensitive_search [of "example_env example_cookie" "searching (str ''  '')"]
       filtered_JAVA filtered_blank
  show ?thesis unfolding s by simp
qed
text \<open>
  C7. Once loading has finished without an error: an empty fetched list renders
  "No enrolled courses found."; a non-empty list with an empty filter result renders
  "No courses match your search criteria."; with a non-empty list and a non-empty search
  term the count of filtered objects is displayed; and a displayed count always belongs to
  a non-empty search term, is the number of filtered objects and carries the word "course"
  exactly when it is 1 and "courses" otherwise.
\<close>

theorem loaded_view_messages_and_count:
  assumes "\<not> isLoading s" and "\<not> truthy_str (error s)"
  shows "(learningObjects s = [] \<longrightarrow>
            render_view env s = Loaded None (NoCoursesMessage (str ''No enrolled courses found.''))) \<and>
         (learningObjects s \<noteq> [] \<and> filteredCourses env s = [] \<longrightarrow>
            (\<exists>box. render_view env s =
               Loaded (Some box) (NoCoursesMessage (str ''No courses match your search criteria.'')))) \<and>
         (learningObjects s \<noteq> [] \<and> searchTerm s \<noteq> [] \<longrightarrow>
            shown_count (render_view env s) =
              Some (length (filteredCourses env s),
                    if length (filteredCourses env s) = 1 then str ''course'' else str ''courses'')) \<and>
         (\<forall>n w. shown_count (render_view env s) = Some (n, w) \<longrightarrow>
            searchTerm s \<noteq> [] \<and> n = length (filteredCourses env s) \<and>
            (w = str ''course'' \<longleftrightarrow> n = 1) \<and> (w = str ''courses'' \<longleftrightarrow> n \<noteq> 1))"
proof -
  have v: "render_view env s = render_loaded env s"
    using assms by (simp add: render_view_def truthy_str_def split: option.splits)
  have ne: "str ''course'' \<noteq> str ''courses''" by (simp add: str_def)
  show ?thesis
    unfolding v using ne
    by (auto simp: render_loaded_def shown_count_def split: if_splits)
qed

theorem loaded_view_messages_and_count_witness:
  "\<not> isLoading (searching (str ''JAVA'')) \<and> \<not> truthy_str (error (searching (str ''JAVA''))) \<and>
   learningObjects (searching (str ''JAVA'')) \<noteq> [] \<and> searchTerm (searching (str ''JAVA'')) \<noteq> [] \<and>
   shown_count (render_view (example_env example_cookie) (searching (str ''JAVA''))) = Some (1, str ''course'') \<and>
   filteredCourses (example_env example_cookie) (searching (str ''go'')) = [] \<and>
   (\<exists>box. render_view (example_env example_cookie) (searching (str ''go'')) =
      Loaded (Some box) (NoCoursesMessage (str ''No courses match your search criteria.''))) \<and>
   shown_count (render_view (example_env example_cookie) (searching (str ''go''))) = Some (0, str ''courses'') \<and>
   learningObjects (initial_state\<lparr>isLoading := False\<rparr>) = [] \<and>
   render_view (example_env example_cookie) (initial_state\<lparr>isLoading := False\<rparr>) =
     Loaded None (NoCoursesMessage (str ''No enrolled courses found.''))"
proof -
  have a: "\<not> isLoading (searching t)" "\<not> truthy_str (error (searching t))"
          "learningObjects (searching t) \<noteq> []" for t
    by (simp_all add: searching_def initial_state_def truthy_str_def)
  have t: "searchTerm (searching (str ''JAVA'')) \<noteq> []" "searchTerm (searching (str ''go'')) \<noteq> []"
    by (simp_all add: searching_def str_def)
  have b: "\<not> isLoading (initial_state\<lparr>isLoading := False\<rparr>)"
          "\<not> truthy_str (error (initial_state\<lparr>isLoading := False\<rparr>))"
          "learningObjects (initial_state\<lparr>isLoading := False\<rparr>) = []"
    by (simp_all add: initial_state_def truthy_str_def)
  note T1 = loaded_view_messages_and_count [OF a(1,2), of "str ''JAVA''" "example_env example_cookie"]
  note T2 = loaded_view_messages_and_count [OF a(1,2), of "str ''go''" "example_env example_cookie"]
  note T3 = loaded_view_messages_and_count [OF b(1,2), of "example_env example_cookie"]
  have c1: "shown_count (render_view (example_env example_cookie) (searching (str ''JAVA''))) =
      Some (length (filteredCourses (example_env example_cookie) (searching (str ''JAVA''))),
            if length (filteredCourses (example_env example_cookie) (searching (str ''JAVA''))) = 1
            then str ''course'' else str ''courses'')"
    using T1 a(3) t(1) by blast
  have c1': "shown_count (render_view (example_env example_cookie) (searching (str ''JAVA''))) =
      Some (1, str ''course'')"
    unfolding c1 filtered_JAVA by simp
  have c2: "\<exists>box. render_view (example_env example_cookie) (searching (str ''go'')) =
      Loaded (Some box) (NoCoursesMessage (str ''No courses match your search criteria.''))"
    using T2 a(3) filtered_go by blast
  have c3: "shown_count (render_view (example_env example_cookie) (searching (str ''go''))) =
      Some (length (filteredCourses (example_env example_cookie) (searching (str ''go''))),
            if length (filteredCourses (example_env example_cookie) (searching (str ''go''))) = 1
            then str ''course'' else str ''courses'')"
    using T2 a(3) t(2) by blast
  have c3': "shown_count (render_view (example_env example_cookie) (searching (str ''go''))) =
      Some (0, str ''courses'')"
    unfolding c3 filtered_go by simp
  have c4: "render_view (example_env example_cookie) (initial_state\<lparr>isLoading := False\<rparr>) =
     Loaded None (NoCoursesMessage (str ''No enrolled courses found.''))"
    using T3 b(3) by blast
  from a t b c1' c2 c3' c4 filtered_go show ?thesis by blast
qed

section \<open>Claims about the cards\<close>

lemma inline_card_Some_iff:
  "(\<exists>c. inline_card in_progress index course = Some c) \<longleftrightarrow> (\<exists>m. first_entry course = Some m)"
  by (simp add: inline_card_def first_entry_def Let_def split: option.splits list.splits)

text \<open>
  C8 (counterexample). The first metadata entry of \<open>rust_course\<close> has the empty
  description, of length 0, which is at most 100; its card does not display the
  description unchanged but the text "No description available".
\<close>

theorem empty_description_counterexample:
  "first_entry rust_course = Some \<lparr>md_name = Some (str ''Rust''), md_description = Some []\<rparr> \<and>
   length ([] :: jsstring) \<le> 100 \<and>
   map_option courseDescription (inline_card False 0 rust_course) = Some (str ''No description available'') \<and>
   str ''No description available'' \<noteq> []"
  by (simp add: first_entry_def rust_course_def inline_card_def str_eq_Nil_iff Let_def)

text \<open>
  C8 (amended). For every rendered card, the displayed description is the description of
  the first metadata entry unchanged when that is not empty and at most 100 code units
  long, its first 100 code units followed by "..." when it is longer, and
  "No description available" when it is absent or empty.
\<close>

theorem card_description_truncated:
  assumes "inline_card in_progress index course = Some c"
  shows "\<exists>m. first_entry course = Some m \<and>
           (\<forall>d. md_description m = Some d \<and> d \<noteq> [] \<and> length d \<le> 100 \<longrightarrow> courseDescription c = d) \<and>
           (\<forall>d. md_description m = Some d \<and> length d > 100 \<longrightarrow>
                courseDescription c = take 100 d @ str ''...'') \<and>
           (md_description m = None \<or> md_description m = Some [] \<longrightarrow>
                courseDescription c = str ''No description available'')"
  using assms
  by (auto simp: inline_card_def first_entry_def substring_to_def Let_def
      split: option.splits list.splits if_splits)

lemma java_card_description:
  "map_option courseDescription (inline_card False 0 java_course) = Some (str ''Intro'')"
  by (simp add: inline_card_def java_course_def str_eq_Nil_iff length_str Let_def)

lemma wordy_card_description:
  "map_option courseDescription (inline_card False 0 wordy_course) =
     Some (replicate 100 97 @ str ''...'')"
  by (simp add: inline_card_def wordy_course_def substring_to_def Let_def)

theorem card_description_truncated_witness:
  "(\<exists>c. inline_card False 0 java_course = Some c \<and> courseDescription c = str ''Intro'') \<and>
   (\<exists>c. inline_card False 0 wordy_course = Some c \<and>
        courseDescription c = take 100 (replicate 101 97) @ str ''...'') \<and>
   (\<exists>c. inline_card False 0 rust_course = Some c \<and>
        courseDescription c = str ''No description available'')"
proof -
  obtain cj where cj: "inline_card False 0 java_course = Some cj"
    using java_card_description by (cases "inline_card False 0 java_course") auto
  obtain cw where cw: "inline_card False 0 wordy_course = Some cw"
    using wordy_card_description by (cases "inline_card False 0 wordy_course") auto
  obtain cr where cr: "inline_card False 0 rust_course = Some cr"
    using inline_card_Some_iff [of False 0 rust_course] by (auto simp: first_entry_def rust_course_def)
  have fj: "first_entry java_course = Some \<lparr>md_name = Some (str ''Java''), md_description = Some (str ''Intro'')\<rparr>"
    by (simp add: first_entry_def java_course_def)
  have fw: "first_entry wordy_course = Some \<lparr>md_name = None, md_description = Some (replicate 101 97)\<rparr>"
    by (simp add: first_entry_def wordy_course_def)
  have fr: "first_entry rust_course = Some \<lparr>md_name = Some (str ''Rust''), md_description = Some []\<rparr>"
    by (simp add: first_entry_def rust_course_def)
  have lj: "str ''Intro'' \<noteq> [] \<and> length (str ''Intro'') \<le> 100"
    by (simp add: str_eq_Nil_iff length_str)
  have lw: "length (replicate 101 (97 :: jschar)) > 100" by simp
  have a: "courseDescription cj = str ''Intro''"
    using card_description_truncated [OF cj] fj lj by auto
  have b: "courseDescription cw = take 100 (replicate 101 97) @ str ''...''"
    using card_description_truncated [OF cw] fw lw by auto
  have c: "courseDescription cr = str ''No description available''"
    using card_description_truncated [OF cr] fr by auto
  from cj cw cr a b c show ?thesis by simp
qed

lemma courseGrid_card_eq_inline_card: "courseGrid_card = inline_card"
  by (intro ext) (simp add: courseGrid_card_def inline_card_def)

lemma courseGrid_cache:
  "fst (courseGrid (h\<lparr>courseGrid_cell := None\<rparr>) s) =
     map_index (inline_card (apiCallInProgress s)) (learningObjects s)"
  "fst (courseGrid (h\<lparr>courseGrid_cell := Some (deps, grid)\<rparr>) s) =
     (if deps = learningObjects s then grid
      else map_index (inline_card (apiCallInProgress s)) (learningObjects s))"
  by (simp_all add: courseGrid_def useMemo_def courseGrid_card_eq_inline_card)

lemma card_handlers:
  "map_option (\<lambda>c. onClick c env) (courseGrid_card False index course) =
     map_option (\<lambda>c. checkCourseAvailability_click False env (lo_id course))
       (courseGrid_card False index course)"
  "map_option (\<lambda>c. onClick c env) (inline_card True index course) =
     map_option (\<lambda>c. ([], Finished Return)) (inline_card True index course)"
  by (simp_all add: courseGrid_card_def inline_card_def Let_def click_in_progress
        split: option.splits list.splits)

lemma loaded_state_eq:
  "loaded_state = initial_state\<lparr>userId := JStr (str ''u1''),
      learningObjects := [java_course, rust_course], isLoading := False\<rparr>"
proof -
  have c: "getCookieByName (document_cookie (example_env example_cookie)) (str ''user'') = Some user_json_text"
    by (simp add: example_env_def example_cookie_user)
  have i: "opt_field (opt_field (JObj [(str ''data'', JObj [(str ''id'', JStr (str ''u1''))])]) (str ''data''))
             (str ''id'') = JStr (str ''u1'')"
    by (simp add: opt_field_def)
  have g: "getEnrolledLearningObjects (example_env example_cookie) v =
      ([RestAdapterGet (str ''/api'' @ str ''/learningObjects?'')
          [(str ''userId'', v),
           (str ''filter.loTypes'', JStr (str ''course'')),
           (str ''page[limit]'', JStr (str ''100'')),
           (str ''sort'', JStr (str ''name'')),
           (str ''filter.ignoreEnhancedLP'', JStr (str ''true''))]],
       Some \<lparr>learningObjectList = Some [java_course, rust_course]\<rparr>)" for v
    by (simp add: getEnrolledLearningObjects_def example_env_def Let_def)
  show ?thesis
    by (simp add: loaded_state_def after_fetchData_def fetchData_def fetchData_try_def c
          user_json_text_not_empty parse_user_json_text i g
          try_catch_finally_def apply_effects_simps initial_state_def Let_def str_eq_Nil_iff)
qed

lemma checking_state_eq:
  "checking_state = loaded_state\<lparr>apiCallInProgress := True\<rparr>"
  by (simp add: checking_state_def loaded_state_eq initial_state_def example_click apply_effects_simps)

lemma hooks_after_two_renders:
  "hooks_after [initial_state, loaded_state] =
     \<lparr>courseGrid_cell = Some ([java_course, rust_course],
         map_index (courseGrid_card False) [java_course, rust_course])\<rparr>"
  by (simp add: hooks_after_def courseGrid_def useMemo_def first_render_hooks_def
        loaded_state_eq initial_state_def map_index_def)

text \<open>
  C9 (the code at the input where the claim fails). The claim: the memoized grid and the
  inline grid produce the same card for every learning object, click behaviour included.
  The two per-card bodies are the same function of the captured \<open>apiCallInProgress\<close>, the
  index and the object, and a grid that \<open>useMemo\<close> computes in a render is the inline
  grid of that render over the same list. But the dependencies of \<open>useMemo\<close> are
  \<open>[learningObjects]\<close> only: while the list is the same, \<open>courseGrid\<close> is the cached
  grid, whatever \<open>apiCallInProgress\<close> has become. A handler that captured \<open>false\<close> runs
  the check; a handler that captured \<open>true\<close> does nothing. So it is in the third of
  three renders (the first, the one after the catalog has loaded, the one after a click
  on the first card has sent its request): the inline cards ignore a click, the memoized
  cards of the same objects call \<open>preventDefault\<close> and send a second request.
\<close>

theorem memoized_grid_handlers_go_stale:
  "courseGrid_card in_progress index course = inline_card in_progress index course \<and>
   fst (courseGrid (h\<lparr>courseGrid_cell := None\<rparr>) s) =
     map_index (inline_card (apiCallInProgress s)) (learningObjects s) \<and>
   fst (courseGrid (h\<lparr>courseGrid_cell := Some (deps, grid)\<rparr>) s) =
     (if deps = learningObjects s then grid
      else map_index (inline_card (apiCallInProgress s)) (learningObjects s)) \<and>
   fst (SakshiEnrolledLearningObjects env h s) = render_view env s \<and>
   map_option (\<lambda>c. onClick c env) (courseGrid_card False index course) =
     map_option (\<lambda>c. checkCourseAvailability_click False env (lo_id course))
       (courseGrid_card False index course) \<and>
   map_option (\<lambda>c. onClick c env) (inline_card True index course) =
     map_option (\<lambda>c. ([], Finished Return)) (inline_card True index course) \<and>
   apiCallInProgress checking_state \<and>
   render_view (example_env example_cookie) checking_state =
     Loaded (Some \<lparr>input_value = [], resultsCount = None\<rparr>)
       (CourseGrid (map_index (inline_card True) [java_course, rust_course])) \<and>
   fst (courseGrid (hooks_after [initial_state, loaded_state]) checking_state) =
     map_index (courseGrid_card False) [java_course, rust_course] \<and>
   map (map_option (\<lambda>c. fst (onClick c (example_env example_cookie))))
       (map_index (inline_card True) [java_course, rust_course]) =
     [Some [], Some []] \<and>
   map (map_option (\<lambda>c. fst (onClick c (example_env example_cookie))))
       (map_index (courseGrid_card False) [java_course, rust_course]) =
     [Some [PreventDefault, SetApiCallInProgress True,
            AxiosGet (str ''https://learningmanager.adobe.com/primeapi/v2/learningObjects/'' @ str ''course%3A1'')
              [(str ''Accept'', str ''application/vnd.api+json''),
               (str ''Authorization'', str ''oauth '' @ str ''t0'')]],
      Some [PreventDefault, SetApiCallInProgress True,
            AxiosGet (str ''https://learningmanager.adobe.com/primeapi/v2/learningObjects/'' @ str ''course%3A2'')
              [(str ''Accept'', str ''application/vnd.api+json''),
               (str ''Authorization'', str ''oauth '' @ str ''t0'')]]] \<and>
   map_index (courseGrid_card False) [java_course, rust_course] \<noteq>
     map_index (inline_card True) [java_course, rust_course]"
proof -
  have general:
    "courseGrid_card in_progress index course = inline_card in_progress index course"
    "fst (SakshiEnrolledLearningObjects env h s) = render_view env s"
    by (simp_all add: courseGrid_card_eq_inline_card SakshiEnrolledLearningObjects_def
          split: prod.splits)
  have s: "checking_state = initial_state\<lparr>userId := JStr (str ''u1''),
      learningObjects := [java_course, rust_course], isLoading := False, apiCallInProgress := True\<rparr>"
    by (simp add: checking_state_eq loaded_state_eq)
  have fields: "\<not> isLoading checking_state" "error checking_state = None"
      "learningObjects checking_state = [java_course, rust_course]"
      "searchTerm checking_state = []"
    by (simp_all add: s initial_state_def)
  have f: "filteredCourses (example_env example_cookie) checking_state = [java_course, rust_course]"
    by (simp add: filteredCourses_def fields trim_def)
  have a: "apiCallInProgress checking_state" by (simp add: s)
  have b: "render_view (example_env example_cookie) checking_state =
     Loaded (Some \<lparr>input_value = [], resultsCount = None\<rparr>)
       (CourseGrid (map_index (inline_card True) [java_course, rust_course]))"
    by (simp add: render_view_def render_loaded_def f fields a)
  have c: "fst (courseGrid (hooks_after [initial_state, loaded_state]) checking_state) =
     map_index (courseGrid_card False) [java_course, rust_course]"
    by (simp add: hooks_after_two_renders courseGrid_def useMemo_def fields)
  have ids: "lo_id java_course = str ''course:1''" "lo_id rust_course = str ''course:2''"
    by (simp_all add: java_course_def rust_course_def)
  have mj: "localizedMetadata java_course =
      Some [\<lparr>md_name = Some (str ''Java''), md_description = Some (str ''Intro'')\<rparr>]"
    by (simp add: java_course_def)
  have mr: "localizedMetadata rust_course =
      Some [\<lparr>md_name = Some (str ''Rust''), md_description = Some []\<rparr>]"
    by (simp add: rust_course_def)
  have d: "map (map_option (\<lambda>c. fst (onClick c (example_env example_cookie))))
       (map_index (inline_card True) [java_course, rust_course]) =
     [Some [], Some []]"
    by (simp add: map_index_def inline_card_def mj mr Let_def click_in_progress)
  have e: "map (map_option (\<lambda>c. fst (onClick c (example_env example_cookie))))
       (map_index (courseGrid_card False) [java_course, rust_course]) =
     [Some [PreventDefault, SetApiCallInProgress True,
            AxiosGet (str ''https://learningmanager.adobe.com/primeapi/v2/learningObjects/'' @ str ''course%3A1'')
              [(str ''Accept'', str ''application/vnd.api+json''),
               (str ''Authorization'', str ''oauth '' @ str ''t0'')]],
      Some [PreventDefault, SetApiCallInProgress True,
            AxiosGet (str ''https://learningmanager.adobe.com/primeapi/v2/learningObjects/'' @ str ''course%3A2'')
              [(str ''Accept'', str ''application/vnd.api+json''),
               (str ''Authorization'', str ''oauth '' @ str ''t0'')]]]"
    by (simp add: map_index_def courseGrid_card_def mj mr ids Let_def example_click example_click_2)
  have g: "map_index (courseGrid_card False) [java_course, rust_course] \<noteq>
     map_index (inline_card True) [java_course, rust_course]"
  proof
    assume "map_index (courseGrid_card False) [java_course, rust_course] =
      map_index (inline_card True) [java_course, rust_course]"
    with d e show False by simp
  qed
  note cache = courseGrid_cache(1) [where h = h and s = s]
    courseGrid_cache(2) [where h = h and s = s and deps = deps and grid = grid]
  note handlers = card_handlers [where env = env and index = index and course = course]
  from general cache handlers a b c d e g show ?thesis by (intro conjI)
qed

end
